theory Spec2Isabelle
  imports Main "HOL-Library.AList"
begin

section \<open>Data model of \<open>era_5g_interface/channels.py\<close>\<close>

text \<open>
  The theory embeds class \<open>Channels\<close>: the back-pressure check, \<open>send_image\<close>,
  \<open>send_data\<close>, \<open>get_client_eio_sid\<close>, \<open>image_decode\<close> and \<open>data_lz4_decode\<close>.
  Every function takes the object state and returns it updated, together with either
  the returned value or the raised exception; a call that never returns is \<open>None\<close>.
  Log output has no effect on the state and is left out. The handlers that
  \<open>ClientChannels\<close> registers only pass what these functions return to the user's
  callbacks and are not embedded.
\<close>

datatype ChannelType = JSON | JPEG | H264 | JSON_LZ4

text \<open>
  Python \<open>str\<close> and \<open>bytes\<close> are both character lists; a \<open>str\<close> is read as its UTF-8
  bytes, so \<open>bytes(s, "utf-8")\<close> is the identity on this representation.
\<close>

type_synonym bytes = string

datatype ndarray = NDArray (shape: "nat list") (buffer: "nat list")

text \<open>
  The values a \<open>Dict[str, Any]\<close> holds. A dictionary is an association list in insertion
  order, as a Python \<open>dict\<close> is; floats are not modelled.
\<close>

datatype pyval =
    PNone
  | PBool bool
  | PInt int
  | PStr string
  | PBytes bytes
  | PArray ndarray
  | PDict "(string \<times> pyval) list"

type_synonym pydict = "(string \<times> pyval) list"

datatype exn =
    UnknownChannelTypeUsed
  | BackPressureException
  | ValueError string
  | ConnectionError string
  | KeyError
  | IndexError
  | TypeError
  | H264EncoderError string
  | H264DecoderError string
  | OtherException string

definition DATA_NAMESPACE :: string where
  "DATA_NAMESPACE = ''/data''"

definition DATA_ERROR_EVENT :: string where
  "DATA_ERROR_EVENT = ''data_error''"

text \<open>
  \<open>CallbackInfoClient\<close> / \<open>CallbackInfoServer\<close>. The \<open>callback\<close> field is only called by
  the dispatch bindings, never by \<open>Channels\<close>, and is left out.
\<close>

record CallbackInfo =
  type :: ChannelType
  error_event :: string

text \<open>
  The socketio object \<open>self._sio\<close>, as far as \<open>Channels\<close> reads and writes it:
  \<^item> \<open>is_client\<close>: \<open>isinstance(self._sio, socketio.Client)\<close>;
  \<^item> \<open>sid\<close>: the client's \<open>sio.sid\<close> (\<open>None\<close> when there is none);
  \<^item> \<open>connected\<close>, \<open>eio_state\<close>: \<open>sio.connected\<close> and \<open>sio.eio.state\<close>;
  \<^item> \<open>reconnect_task\<close>: \<open>None\<close> when \<open>sio._reconnect_task\<close> is unset, otherwise
    \<open>Some (is_alive())\<close>;
  \<^item> \<open>eio_queue_qsize\<close>: the client's \<open>sio.eio.queue.qsize()\<close>;
  \<^item> \<open>eio_sid_from_sid\<close>, \<open>is_connected\<close>: the server manager's methods;
  \<^item> \<open>eio_sockets\<close>: the server's \<open>sio.eio.sockets\<close>, each socket by its
    \<open>queue.qsize()\<close>;
  \<^item> \<open>emitted\<close>: the calls of \<open>sio.emit\<close> so far, each as
    \<open>(event, data, namespace, to)\<close>.

  \<open>emit\<close> itself belongs to the transport: a call is recorded and taken to return
  (\<open>DATA_NAMESPACE\<close> is assumed to be a connected namespace, as the docstrings say), and
  the queue depths stay what the transport reports.
\<close>

record socketio =
  is_client :: bool
  sid :: "string option"
  connected :: bool
  eio_state :: string
  reconnect_task :: "bool option"
  eio_queue_qsize :: int
  eio_sid_from_sid :: "string \<Rightarrow> string \<Rightarrow> string option"
  is_connected :: "string \<Rightarrow> string \<Rightarrow> bool"
  eio_sockets :: "string \<rightharpoonup> int"
  emitted :: "(string \<times> pyval \<times> string \<times> string option) list"

text \<open>
  Modelled from the spec: \<open>h264_decoder.py\<close> is not among the sources. \<open>H264Decoder\<close>
  has the attribute \<open>last_timestamp\<close>, which \<open>image_decode\<close> reads and writes; the rest
  of the object is \<open>codec\<close>, and the decoder's methods (\<open>decode_packet_data\<close>,
  \<open>get_init_count\<close>, \<open>decoder_init\<close>) act on \<open>codec\<close> alone, as the spec's CodecState
  keeps \<open>last_timestamp\<close> apart from the adapter.
\<close>

record 'd H264Decoder =
  last_timestamp :: pyval
  codec :: 'd

text \<open>
  The collaborators \<open>Channels\<close> calls and does not define: the clock, the H.264 encoder
  (an object of type \<open>'e\<close>) and decoder, OpenCV's JPEG functions, \<open>ujson\<close>, \<open>lz4.frame\<close>,
  \<open>repr\<close>/\<open>str\<close> of an exception, and what happens to the socketio object during one
  \<open>time.sleep(1)\<close>. Each is a parameter; a call that can raise returns a sum.
\<close>

record ('e, 'd) externals =
  perf_counter_ns :: int
  new_H264Encoder :: "nat \<Rightarrow> nat \<Rightarrow> (string \<times> string) list option \<Rightarrow> exn + 'e"
  encode_ndarray :: "'e \<Rightarrow> ndarray \<Rightarrow> (exn + bytes) \<times> 'e"
  width :: "'e \<Rightarrow> int"
  height :: "'e \<Rightarrow> int"
  last_frame_is_keyframe :: "'e \<Rightarrow> bool"
  encoder_get_init_count :: "'e \<Rightarrow> int"
  encoder_init :: "'e \<Rightarrow> 'e"
  new_H264Decoder :: "pyval \<Rightarrow> pyval \<Rightarrow> exn + 'd H264Decoder"
  decode_packet_data :: "'d \<Rightarrow> pyval \<Rightarrow> (exn + pyval) \<times> 'd"
  decoder_get_init_count :: "'d \<Rightarrow> int"
  decoder_init :: "'d \<Rightarrow> 'd"
  imencode :: "ndarray \<Rightarrow> exn + bytes"
  imdecode :: "pyval \<Rightarrow> exn + pyval"
  dumps :: "pydict \<Rightarrow> exn + string"
  loads :: "bytes \<Rightarrow> exn + pyval"
  compress :: "bytes \<Rightarrow> exn + bytes"
  decompress :: "bytes \<Rightarrow> exn + bytes"
  repr :: "exn \<Rightarrow> string"
  str :: "exn \<Rightarrow> string"
  sleep :: "socketio \<Rightarrow> socketio"

text \<open>The attributes of a \<open>Channels\<close> object (\<open>__init__\<close>).\<close>

record ('e, 'd) Channels =
  sio :: socketio
  back_pressure_size :: "int option"
  recreate_h264_attempts_count :: int
  stats :: bool
  sizes :: "nat list"
  callbacks_info :: "string \<rightharpoonup> CallbackInfo"
  decoders :: "(string \<times> string) \<rightharpoonup> 'd H264Decoder"
  encoders :: "(string \<times> string) \<rightharpoonup> 'e"

type_synonym ('a, 'e, 'd) result = "((exn + 'a) \<times> ('e, 'd) Channels) option"

definition raise :: "exn \<Rightarrow> ('e, 'd) Channels \<Rightarrow> ('a, 'e, 'd) result" where
  "raise e c = Some (Inl e, c)"

definition return :: "'a \<Rightarrow> ('e, 'd) Channels \<Rightarrow> ('a, 'e, 'd) result" where
  "return v c = Some (Inr v, c)"

section \<open>Python helpers\<close>

definition str_opt :: "string option \<Rightarrow> string" where
  \<comment> \<open>\<open>str(x)\<close> of an optional string: \<open>str(None)\<close> is \<open>'None'\<close>.\<close>
  "str_opt x = (case x of None \<Rightarrow> ''None'' | Some s \<Rightarrow> s)"

fun py_int :: "pyval \<Rightarrow> int option" where
  \<comment> \<open>The number a value is in arithmetic: \<open>bool\<close> is a subclass of \<open>int\<close>.\<close>
  "py_int (PInt i) = Some i"
| "py_int (PBool b) = Some (if b then 1 else 0)"
| "py_int _ = None"

definition py_sub :: "pyval \<Rightarrow> pyval \<Rightarrow> exn + int" where
  \<comment> \<open>\<open>a - b\<close>: a \<open>TypeError\<close> unless both are numbers.\<close>
  "py_sub a b =
     (case py_int a of
        None \<Rightarrow> Inl TypeError
      | Some x \<Rightarrow> (case py_int b of None \<Rightarrow> Inl TypeError | Some y \<Rightarrow> Inr (x - y)))"

fun digits :: "nat \<Rightarrow> string" where
  \<comment> \<open>The decimal digits of a number.\<close>
  "digits n =
     (if n < 10 then [''0123456789'' ! n]
      else digits (n div 10) @ [''0123456789'' ! (n mod 10)])"

declare digits.simps [simp del]

definition str_int :: "int \<Rightarrow> string" where
  "str_int i = (if i < 0 then CHR ''-'' # digits (nat (- i)) else digits (nat i))"

fun str_num :: "pyval \<Rightarrow> string" where
  \<comment> \<open>\<open>str(x)\<close> inside an f-string, for the values \<open>py_sub\<close> accepts.\<close>
  "str_num (PInt i) = str_int i"
| "str_num (PBool b) = (if b then ''True'' else ''False'')"
| "str_num _ = []"

definition dict_set :: "pydict \<Rightarrow> string \<Rightarrow> pyval \<Rightarrow> pydict" where
  \<comment> \<open>\<open>d[k] = v\<close>\<close>
  "dict_set d k v = AList.update k v d"

definition dict_has :: "pydict \<Rightarrow> string \<Rightarrow> bool" where
  \<comment> \<open>\<open>k in d\<close>\<close>
  "dict_has d k = (map_of d k \<noteq> None)"

definition dict_get :: "pydict \<Rightarrow> string \<Rightarrow> pyval" where
  \<comment> \<open>\<open>d[k]\<close>, read only where \<open>k in d\<close> has been checked.\<close>
  "dict_get d k = the (map_of d k)"

section \<open>Back pressure and sending\<close>

definition sid_not_set :: string where
  \<comment> \<open>The message \<open>'sid' has to be set for server.\<close>\<close>
  "sid_not_set = CHR 0x27 # ''sid'' @ CHR 0x27 # '' has to be set for server.''"

definition get_client_eio_sid :: "socketio \<Rightarrow> string option \<Rightarrow> string \<Rightarrow> exn + string" where
  "get_client_eio_sid s sid_arg namespace =
     (if is_client s then Inr (str_opt (sid s))
      else (case sid_arg of
              None \<Rightarrow> Inl (ValueError sid_not_set)
            | Some x \<Rightarrow> Inr (str_opt (eio_sid_from_sid s x namespace))))"

definition apply_back_pressure :: "('e, 'd) Channels \<Rightarrow> string option \<Rightarrow> exn + unit" where
  "apply_back_pressure c sid_arg =
     (case back_pressure_size c of
        None \<Rightarrow> Inr ()
      | Some bp \<Rightarrow>
          if is_client (sio c) then
            (if eio_queue_qsize (sio c) > bp then Inl BackPressureException else Inr ())
          else
            (case sid_arg of
               None \<Rightarrow> Inl (ValueError sid_not_set)
             | Some x \<Rightarrow>
                 (case get_client_eio_sid (sio c) (Some x) DATA_NAMESPACE of
                    Inl e \<Rightarrow> Inl e
                  | Inr eio_sid \<Rightarrow>
                      (case eio_sockets (sio c) eio_sid of
                         None \<Rightarrow> Inl KeyError
                       | Some q \<Rightarrow> if q > bp then Inl BackPressureException else Inr ()))))"

definition admit :: "('e, 'd) Channels \<Rightarrow> string option \<Rightarrow> bool \<Rightarrow> exn + unit" where
  \<comment> \<open>\<open>if can_be_dropped: self._apply_back_pressure(sid)\<close>\<close>
  "admit c sid_arg can_be_dropped =
     (if can_be_dropped then apply_back_pressure c sid_arg else Inr ())"

text \<open>
  The loop of \<open>send_data\<close> that waits for the reconnection: it leaves when the client is
  connected, or when no reconnection task is alive; otherwise it sleeps a second, during
  which the socketio object changes as \<open>sleep\<close> says, and looks again. It need not end.
\<close>

partial_function (option) wait_for_reconnection_loop ::
  "(socketio \<Rightarrow> socketio) \<Rightarrow> socketio \<Rightarrow> socketio option" where
  "wait_for_reconnection_loop slp s =
     (if \<not> connected s \<or> eio_state s = [] then
        (if reconnect_task s \<noteq> Some True then Some s
         else wait_for_reconnection_loop slp (slp s))
      else Some s)"

definition emit :: "socketio \<Rightarrow> string \<Rightarrow> pyval \<Rightarrow> string \<Rightarrow> string option \<Rightarrow> socketio" where
  "emit s event new_data namespace to = s\<lparr>emitted := emitted s @ [(event, new_data, namespace, to)]\<rparr>"

definition lz4_payload :: "('e, 'd) externals \<Rightarrow> pydict \<Rightarrow> exn + pyval" where
  \<comment> \<open>\<open>compress(bytes(ujson.dumps(data), "utf-8"))\<close>\<close>
  "lz4_payload ext data =
     (case dumps ext data of
        Inl e \<Rightarrow> Inl e
      | Inr s \<Rightarrow> (case compress ext s of Inl e \<Rightarrow> Inl e | Inr z \<Rightarrow> Inr (PBytes z)))"

definition encode_payload :: "('e, 'd) externals \<Rightarrow> ChannelType \<Rightarrow> pydict \<Rightarrow> exn + pyval" where
  \<comment> \<open>\<open>new_data\<close>: the data itself, or its compressed JSON text on a \<open>JSON_LZ4\<close> channel.\<close>
  "encode_payload ext channel_type data =
     (if channel_type = JSON_LZ4 then lz4_payload ext data else Inr (PDict data))"

definition send_data ::
  "('e, 'd) externals \<Rightarrow> ('e, 'd) Channels \<Rightarrow> pydict \<Rightarrow> string \<Rightarrow> ChannelType \<Rightarrow>
   string option \<Rightarrow> bool \<Rightarrow> bool \<Rightarrow> (unit, 'e, 'd) result" where
  "send_data ext c data event channel_type sid_arg can_be_dropped wait_for_reconnection =
     (if channel_type \<noteq> JSON \<and> channel_type \<noteq> JSON_LZ4 then raise UnknownChannelTypeUsed c
      else
        (case admit c sid_arg can_be_dropped of
           Inl e \<Rightarrow> raise e c
         | Inr _ \<Rightarrow>
             (case encode_payload ext channel_type data of
                Inl e \<Rightarrow> raise e c
              | Inr new_data \<Rightarrow>
                  if is_client (sio c) then
                    (case (if wait_for_reconnection
                           then wait_for_reconnection_loop (sleep ext) (sio c)
                           else Some (sio c)) of
                       None \<Rightarrow> None
                     | Some s \<Rightarrow> return () (c\<lparr>sio := emit s event new_data DATA_NAMESPACE None\<rparr>))
                  else
                    (case sid_arg of
                       None \<Rightarrow> raise (ValueError sid_not_set) c
                     | Some x \<Rightarrow>
                         if \<not> is_connected (sio c) x DATA_NAMESPACE then
                           raise (ConnectionError
                             (''Client with '' @ DATA_NAMESPACE @ '' sid '' @ x @
                              '' is not connected to server.'')) c
                         else
                           return () (c\<lparr>sio := emit (sio c) event new_data DATA_NAMESPACE (Some x)\<rparr>)))))"

section \<open>\<open>send_image\<close>\<close>

definition frame_size :: "ndarray \<Rightarrow> exn + nat \<times> nat" where
  \<comment> \<open>\<open>(frame.shape[1], frame.shape[0])\<close>\<close>
  "frame_size frame = (case shape frame of h # w # _ \<Rightarrow> Inr (w, h) | _ \<Rightarrow> Inl IndexError)"

definition create_encoder ::
  "('e, 'd) externals \<Rightarrow> ('e, 'd) Channels \<Rightarrow> string \<times> string \<Rightarrow> ndarray \<Rightarrow>
   (string \<times> string) list option \<Rightarrow> exn + ('e, 'd) Channels" where
  \<comment> \<open>\<open>if encoder_id not in self._encoders: ...\<close>; a failure is logged and raised again.\<close>
  "create_encoder ext c encoder_id frame encoding_options =
     (if encoders c encoder_id = None then
        (case frame_size frame of
           Inl e \<Rightarrow> Inl e
         | Inr (w, h) \<Rightarrow>
             (case new_H264Encoder ext w h encoding_options of
                Inl e \<Rightarrow> Inl e
              | Inr enc \<Rightarrow> Inr (c\<lparr>encoders := (encoders c)(encoder_id \<mapsto> enc)\<rparr>)))
      else Inr c)"

definition encode_frame ::
  "('e, 'd) externals \<Rightarrow> ('e, 'd) Channels \<Rightarrow> string \<times> string \<Rightarrow> ChannelType \<Rightarrow> ndarray \<Rightarrow>
   pydict \<Rightarrow> (exn + bytes \<times> pydict \<times> bool) \<times> ('e, 'd) Channels" where
  \<comment> \<open>The head of the \<open>try\<close> block: \<open>(frame_encoded, data, is_key_frame)\<close>, or what was raised.\<close>
  "encode_frame ext c encoder_id channel_type frame data =
     (if channel_type = H264 then
        (case encoders c encoder_id of
           None \<Rightarrow> (Inl KeyError, c)
         | Some enc \<Rightarrow>
             (case encode_ndarray ext enc frame of
                (Inl e, enc') \<Rightarrow> (Inl e, c\<lparr>encoders := (encoders c)(encoder_id \<mapsto> enc')\<rparr>)
              | (Inr frame_encoded, enc') \<Rightarrow>
                  (Inr (frame_encoded,
                        dict_set (dict_set (dict_set data ''h264'' (PBool True))
                          ''width'' (PInt (width ext enc'))) ''height'' (PInt (height ext enc')),
                        last_frame_is_keyframe ext enc'),
                   c\<lparr>encoders := (encoders c)(encoder_id \<mapsto> enc')\<rparr>)))
      else
        (case imencode ext frame of
           Inl e \<Rightarrow> (Inl e, c)
         | Inr frame_jpeg \<Rightarrow> (Inr (frame_jpeg, data, False), c)))"

definition encoder_error ::
  "('e, 'd) externals \<Rightarrow> ('e, 'd) Channels \<Rightarrow> string \<times> string \<Rightarrow> exn \<Rightarrow> (unit, 'e, 'd) result" where
  \<comment> \<open>\<open>except H264EncoderError as e: ...\<close>; any other exception passes through.\<close>
  "encoder_error ext c encoder_id e =
     (case e of
        H264EncoderError _ \<Rightarrow>
          (case encoders c encoder_id of
             None \<Rightarrow> raise KeyError c
           | Some enc \<Rightarrow>
               if encoder_get_init_count ext enc < recreate_h264_attempts_count c then
                 return () (c\<lparr>encoders := (encoders c)(encoder_id \<mapsto> encoder_init ext enc)\<rparr>)
               else raise e c)
      | _ \<Rightarrow> raise e c)"

definition image_data :: "('e, 'd) externals \<Rightarrow> int option \<Rightarrow> pydict option \<Rightarrow> pydict" where
  \<comment> \<open>\<open>data\<close> before the frame is encoded: the timestamp (the clock's when none is given)
      and the metadata, when there is some.\<close>
  "image_data ext timestamp metadata =
     (let timestamp = (case timestamp of None \<Rightarrow> perf_counter_ns ext | Some t \<Rightarrow> t);
          data = [(''timestamp'', PInt timestamp)]
      in case metadata of
           None \<Rightarrow> data
         | Some m \<Rightarrow> if m = [] then data else dict_set data ''metadata'' (PDict m))"

definition record_size :: "('e, 'd) Channels \<Rightarrow> bytes \<Rightarrow> ('e, 'd) Channels" where
  \<comment> \<open>\<open>if self._stats: self._sizes.append(len(frame_encoded))\<close>\<close>
  "record_size c frame_encoded =
     (if stats c then c\<lparr>sizes := sizes c @ [length frame_encoded]\<rparr> else c)"

definition send_image ::
  "('e, 'd) externals \<Rightarrow> ('e, 'd) Channels \<Rightarrow> ndarray \<Rightarrow> string \<Rightarrow> ChannelType \<Rightarrow> int option \<Rightarrow>
   pydict option \<Rightarrow> string option \<Rightarrow> bool \<Rightarrow> bool \<Rightarrow> (string \<times> string) list option \<Rightarrow>
   (unit, 'e, 'd) result" where
  "send_image ext c frame event channel_type timestamp metadata sid_arg can_be_dropped
     wait_for_reconnection encoding_options =
     (if channel_type \<noteq> JPEG \<and> channel_type \<noteq> H264 then raise UnknownChannelTypeUsed c
      else
        let data = image_data ext timestamp metadata in
          (case get_client_eio_sid (sio c) sid_arg DATA_NAMESPACE of
             Inl e \<Rightarrow> raise e c
           | Inr eio_sid \<Rightarrow>
               let encoder_id = (eio_sid, event) in
                 (case (if channel_type = H264
                        then create_encoder ext c encoder_id frame encoding_options
                        else Inr c) of
                    Inl e \<Rightarrow> raise e c
                  | Inr c1 \<Rightarrow>
                      (case encode_frame ext c1 encoder_id channel_type frame data of
                         (Inl e, c2) \<Rightarrow> encoder_error ext c2 encoder_id e
                       | (Inr (frame_encoded, data, is_key_frame), c2) \<Rightarrow>
                           let data = dict_set data ''frame'' (PBytes frame_encoded);
                               c3 = record_size c2 frame_encoded
                           in
                             (case send_data ext c3 data event JSON sid_arg
                                     (can_be_dropped \<and> \<not> is_key_frame) True of
                                None \<Rightarrow> None
                              | Some (Inl e, c4) \<Rightarrow> encoder_error ext c4 encoder_id e
                              | Some (Inr _, c4) \<Rightarrow> return () c4)))))"

section \<open>\<open>image_decode\<close> and \<open>data_lz4_decode\<close>\<close>

definition send_error ::
  "('e, 'd) externals \<Rightarrow> ('e, 'd) Channels \<Rightarrow> pydict \<Rightarrow> string \<Rightarrow> string option \<Rightarrow>
   (pyval option, 'e, 'd) result" where
  \<comment> \<open>\<open>self.send_data({...}, error_event, sid=sid); return None\<close>\<close>
  "send_error ext c data error_ev sid_arg =
     (case send_data ext c data error_ev JSON sid_arg False True of
        None \<Rightarrow> None
      | Some (Inl e, c') \<Rightarrow> raise e c'
      | Some (Inr _, c') \<Rightarrow> return None c')"

definition older_timestamp :: "pyval \<Rightarrow> pyval \<Rightarrow> int \<Rightarrow> string" where
  "older_timestamp timestamp last_ts diff =
     ''Received frame with older timestamp: '' @ str_num timestamp @
     '', last_timestamp: '' @ str_num last_ts @ '', diff: '' @ str_int diff"

definition decoded_data :: "pyval \<Rightarrow> pyval \<Rightarrow> pydict \<Rightarrow> pyval" where
  "decoded_data frame_decoded timestamp data =
     (let d = [(''frame'', frame_decoded), (''timestamp'', timestamp)] in
        PDict (if dict_has data ''metadata''
               then dict_set d ''metadata'' (dict_get data ''metadata'')
               else d))"

definition decode_frame ::
  "('e, 'd) externals \<Rightarrow> ('e, 'd) Channels \<Rightarrow> CallbackInfo \<Rightarrow> string \<times> string \<Rightarrow> pydict \<Rightarrow>
   pyval \<Rightarrow> string option \<Rightarrow> (pyval option, 'e, 'd) result" where
  \<comment> \<open>From the second \<open>if decoder_id in self._decoders:\<close> to the end of \<open>image_decode\<close>.\<close>
  "decode_frame ext c ci decoder_id data timestamp sid_arg =
     (case decoders c decoder_id of
        Some d \<Rightarrow>
          (case decode_packet_data ext (codec d) (dict_get data ''frame'') of
             (Inl e, cd) \<Rightarrow>
               let c1 = c\<lparr>decoders := (decoders c)(decoder_id \<mapsto> d\<lparr>codec := cd\<rparr>)\<rparr> in
                 (case e of
                    H264DecoderError _ \<Rightarrow>
                      let c2 = (if decoder_get_init_count ext cd < recreate_h264_attempts_count c1
                                then c1\<lparr>decoders :=
                                       (decoders c1)(decoder_id \<mapsto> d\<lparr>codec := decoder_init ext cd\<rparr>)\<rparr>
                                else c1)
                      in send_error ext c2
                           [(''timestamp'', timestamp),
                            (''error'', PStr (''H.264 decoder error: '' @ str ext e))]
                           (error_event ci) sid_arg
                  | _ \<Rightarrow> raise e c1)
           | (Inr frame_decoded, cd) \<Rightarrow>
               return (Some (decoded_data frame_decoded timestamp data))
                 (c\<lparr>decoders := (decoders c)(decoder_id \<mapsto> d\<lparr>codec := cd\<rparr>)\<rparr>))
      | None \<Rightarrow>
          (case imdecode ext (dict_get data ''frame'') of
             Inl e \<Rightarrow>
               send_error ext c
                 [(''timestamp'', timestamp),
                  (''error'', PStr (''Failed to decode frame data: '' @ repr ext e))]
                 (error_event ci) sid_arg
           | Inr frame_decoded \<Rightarrow> return (Some (decoded_data frame_decoded timestamp data)) c))"

definition check_timestamp ::
  "('e, 'd) externals \<Rightarrow> ('e, 'd) Channels \<Rightarrow> CallbackInfo \<Rightarrow> string \<times> string \<Rightarrow> pydict \<Rightarrow>
   pyval \<Rightarrow> string option \<Rightarrow> (pyval option, 'e, 'd) result" where
  \<comment> \<open>The first \<open>if decoder_id in self._decoders:\<close> block, then \<open>decode_frame\<close>.\<close>
  "check_timestamp ext c ci decoder_id data timestamp sid_arg =
     (case decoders c decoder_id of
        Some d \<Rightarrow>
          (case py_sub timestamp (last_timestamp d) of
             Inl e \<Rightarrow> raise e c
           | Inr diff \<Rightarrow>
               if diff < 0 then
                 send_error ext c
                   [(''timestamp'', timestamp),
                    (''error'', PStr (older_timestamp timestamp (last_timestamp d) diff))]
                   (error_event ci) sid_arg
               else
                 decode_frame ext
                   (c\<lparr>decoders := (decoders c)(decoder_id \<mapsto> d\<lparr>last_timestamp := timestamp\<rparr>)\<rparr>)
                   ci decoder_id data timestamp sid_arg)
      | None \<Rightarrow> decode_frame ext c ci decoder_id data timestamp sid_arg)"

definition create_decoder ::
  "('e, 'd) externals \<Rightarrow> ('e, 'd) Channels \<Rightarrow> CallbackInfo \<Rightarrow> string \<times> string \<Rightarrow> pydict \<Rightarrow>
   pyval \<Rightarrow> pydict + ('e, 'd) Channels" where
  \<comment> \<open>\<open>if self._callbacks_info[event].type is ChannelType.H264 and decoder_id not in
      self._decoders: ...\<close>: the error data to send before returning \<open>None\<close>, or the
      object to go on with.\<close>
  "create_decoder ext c ci decoder_id data timestamp =
     (if type ci = H264 \<and> decoders c decoder_id = None then
        (if \<not> dict_has data ''width'' \<or> \<not> dict_has data ''height'' then
           Inl [(''timestamp'', timestamp),
                (''error'', PStr ''Data does not contain width or height, it is mandatory for H.264.'')]
         else
           (case new_H264Decoder ext (dict_get data ''width'') (dict_get data ''height'') of
              Inl e \<Rightarrow>
                Inl [(''timestamp'', timestamp),
                     (''error'', PStr (''Cannot create H.264 decoder: '' @ repr ext e))]
            | Inr d \<Rightarrow> Inr (c\<lparr>decoders := (decoders c)(decoder_id \<mapsto> d)\<rparr>)))
      else Inr c)"

definition data_timestamp :: "pydict \<Rightarrow> pyval" where
  \<comment> \<open>\<open>data["timestamp"]\<close>, or the default value 0.\<close>
  "data_timestamp data =
     (if dict_has data ''timestamp'' then dict_get data ''timestamp'' else PInt 0)"

definition image_decode ::
  "('e, 'd) externals \<Rightarrow> ('e, 'd) Channels \<Rightarrow> pydict \<Rightarrow> string \<Rightarrow> string option \<Rightarrow>
   (pyval option, 'e, 'd) result" where
  "image_decode ext c data event sid_arg =
     (let timestamp = data_timestamp data in
        if \<not> dict_has data ''frame'' then
          (case callbacks_info c event of
             None \<Rightarrow> raise KeyError c
           | Some ci \<Rightarrow>
               send_error ext c
                 [(''timestamp'', timestamp), (''error'', PStr ''Data does not contain frame.'')]
                 (error_event ci) sid_arg)
        else
          (case get_client_eio_sid (sio c) sid_arg DATA_NAMESPACE of
             Inl e \<Rightarrow> raise e c
           | Inr eio_sid \<Rightarrow>
               let decoder_id = (eio_sid, event) in
                 (case callbacks_info c event of
                    None \<Rightarrow> raise KeyError c
                  | Some ci \<Rightarrow>
                      (case create_decoder ext c ci decoder_id data timestamp of
                         Inl error_data \<Rightarrow> send_error ext c error_data (error_event ci) sid_arg
                       | Inr c1 \<Rightarrow> check_timestamp ext c1 ci decoder_id data timestamp sid_arg))))"

definition data_lz4_decode ::
  "('e, 'd) externals \<Rightarrow> ('e, 'd) Channels \<Rightarrow> bytes \<Rightarrow> string \<Rightarrow> string option \<Rightarrow>
   (pyval option, 'e, 'd) result" where
  "data_lz4_decode ext c data event sid_arg =
     (case (case decompress ext data of Inl e \<Rightarrow> Inl e | Inr b \<Rightarrow> loads ext b) of
        Inr new_data \<Rightarrow> return (Some new_data) c
      | Inl e \<Rightarrow>
          (case callbacks_info c event of
             None \<Rightarrow> raise KeyError c
           | Some ci \<Rightarrow>
               send_error ext c
                 [(''error'', PStr (''Failed to decode LZ4 JSON data: '' @ repr ext e))]
                 (error_event ci) sid_arg))"

section \<open>Notions the properties speak of\<close>

definition queue_depth :: "('e, 'd) Channels \<Rightarrow> string option \<Rightarrow> int option" where
  \<comment> \<open>The outbound queue depth that \<open>_apply_back_pressure\<close> reads, where there is one.\<close>
  "queue_depth c sid_arg =
     (if is_client (sio c) then Some (eio_queue_qsize (sio c))
      else (case sid_arg of
              None \<Rightarrow> None
            | Some x \<Rightarrow> eio_sockets (sio c) (str_opt (eio_sid_from_sid (sio c) x DATA_NAMESPACE))))"

definition transport_ready :: "socketio \<Rightarrow> string option \<Rightarrow> bool \<Rightarrow> bool" where
  \<comment> \<open>\<open>send_data\<close> reaches \<open>emit\<close> at once: a client that is connected, has no live
      reconnection task or does not wait; a server whose \<open>sid\<close> is connected.\<close>
  "transport_ready s sid_arg wait =
     (if is_client s then
        (if wait then (connected s \<and> eio_state s \<noteq> []) \<or> reconnect_task s \<noteq> Some True
         else True)
      else (case sid_arg of None \<Rightarrow> False | Some x \<Rightarrow> is_connected s x DATA_NAMESPACE))"

definition emit_target :: "socketio \<Rightarrow> string option \<Rightarrow> string option" where
  \<comment> \<open>The \<open>to\<close> argument of \<open>emit\<close>: none on the client, the \<open>sid\<close> on the server.\<close>
  "emit_target s sid_arg = (if is_client s then None else sid_arg)"

section \<open>Example objects\<close>

text \<open>
  A small world to run the functions in: an encoder is \<open>(width, height, init count)\<close> and
  fails on a frame with an empty buffer; a decoder's codec is its init count and fails on
  an empty packet; the compressor reverses the bytes.
\<close>

definition example_externals :: "(nat \<times> nat \<times> int, int) externals" where
  "example_externals = \<lparr>
     perf_counter_ns = 1000,
     new_H264Encoder =
       (\<lambda>w h opts. if w = 0 \<or> h = 0 then Inl (OtherException ''size'') else Inr (w, h, 0)),
     encode_ndarray =
       (\<lambda>enc frame. (if buffer frame = [] then Inl (H264EncoderError ''empty frame'')
                      else Inr ''nal'', enc)),
     width = (\<lambda>(w, h, n). int w),
     height = (\<lambda>(w, h, n). int h),
     last_frame_is_keyframe = (\<lambda>enc. True),
     encoder_get_init_count = (\<lambda>(w, h, n). n),
     encoder_init = (\<lambda>(w, h, n). (w, h, n + 1)),
     new_H264Decoder =
       (\<lambda>w h. case py_int w of
                 None \<Rightarrow> Inl (OtherException ''size'')
               | Some _ \<Rightarrow> Inr \<lparr>last_timestamp = PInt 0, codec = 0\<rparr>),
     decode_packet_data =
       (\<lambda>cd frame. (if frame = PBytes [] then Inl (H264DecoderError ''no data'')
                     else Inr (PArray (NDArray [1, 1, 3] [0, 0, 0])), cd)),
     decoder_get_init_count = (\<lambda>cd. cd),
     decoder_init = (\<lambda>cd. cd + 1),
     imencode = (\<lambda>frame. Inr ''jpg''),
     imdecode = (\<lambda>frame. Inr (PArray (NDArray [1, 1, 3] [0, 0, 0]))),
     dumps = (\<lambda>d. if d = [(''a'', PInt 1)] then Inr ''{a:1}'' else Inl TypeError),
     loads = (\<lambda>b. if b = ''{a:1}'' then Inr (PDict [(''a'', PInt 1)])
                   else Inl (ValueError ''json'')),
     compress = (\<lambda>b. Inr (rev b)),
     decompress = (\<lambda>b. Inr (rev b)),
     repr = (\<lambda>e. ''Exception()''),
     str = (\<lambda>e. case e of H264DecoderError m \<Rightarrow> m | H264EncoderError m \<Rightarrow> m | _ \<Rightarrow> []),
     sleep = (\<lambda>s. s) \<rparr>"

definition example_sio :: socketio where
  "example_sio = \<lparr>
     is_client = True, sid = Some ''c1'', connected = True, eio_state = ''connected'',
     reconnect_task = None, eio_queue_qsize = 6,
     eio_sid_from_sid = (\<lambda>s n. None), is_connected = (\<lambda>s n. False),
     eio_sockets = Map.empty, emitted = [] \<rparr>"

definition example_client :: "(nat \<times> nat \<times> int, int) Channels" where
  \<comment> \<open>A connected client with six packets queued and the default \<open>back_pressure_size\<close>.\<close>
  "example_client = \<lparr>
     sio = example_sio, back_pressure_size = Some 5, recreate_h264_attempts_count = 5,
     stats = False, sizes = [],
     callbacks_info = [''video'' \<mapsto> \<lparr>type = H264, error_event = DATA_ERROR_EVENT\<rparr>,
                       ''photo'' \<mapsto> \<lparr>type = JPEG, error_event = DATA_ERROR_EVENT\<rparr>],
     decoders = Map.empty, encoders = Map.empty \<rparr>"


definition example_frame :: ndarray where
  "example_frame = NDArray [480, 640, 3] [7]"

definition small_frame :: ndarray where
  "small_frame = NDArray [240, 320, 3] [7]"

definition first_sent :: "(nat \<times> nat \<times> int, int) Channels" where
  "first_sent = example_client\<lparr>
     encoders := [(''c1'', ''video'') \<mapsto> (640, 480, 0)],
     sio := example_sio\<lparr>emitted :=
       [(''video'',
         PDict [(''timestamp'', PInt 7), (''h264'', PBool True), (''width'', PInt 640),
                (''height'', PInt 480), (''frame'', PBytes ''nal'')],
         ''/data'', None)]\<rparr>\<rparr>"

definition second_sent :: "(nat \<times> nat \<times> int, int) Channels" where
  "second_sent = first_sent\<lparr>
     sio := (sio first_sent)\<lparr>emitted := emitted (sio first_sent) @
       [(''video'',
         PDict [(''timestamp'', PInt 8), (''h264'', PBool True), (''width'', PInt 640),
                (''height'', PInt 480), (''frame'', PBytes ''nal'')],
         ''/data'', None)]\<rparr>\<rparr>"

definition example_decoding :: "(nat \<times> nat \<times> int, int) Channels" where
  \<comment> \<open>The client once its \<open>video\<close> stream has a decoder that accepted timestamp 10.\<close>
  "example_decoding = example_client\<lparr>
     decoders := [(''c1'', ''video'') \<mapsto> \<lparr>last_timestamp = PInt 10, codec = 0\<rparr>]\<rparr>"

definition older_frame :: pydict where
  "older_frame = [(''timestamp'', PInt 4), (''frame'', PBytes ''x'')]"

definition newer_frame :: pydict where
  "newer_frame = [(''timestamp'', PInt 12), (''frame'', PBytes ''x'')]"

definition older_frame_error :: pyval where
  "older_frame_error =
     PDict [(''timestamp'', PInt 4),
            (''error'', PStr ''Received frame with older timestamp: 4, last_timestamp: 10, diff: -6'')]"

definition untimed_frame :: pydict where
  "untimed_frame = [(''frame'', PBytes ''x'')]"

definition untimed_frame_error :: pyval where
  "untimed_frame_error =
     PDict [(''timestamp'', PInt 0),
            (''error'', PStr ''Received frame with older timestamp: 0, last_timestamp: 10, diff: -10'')]"

definition frame_without_width :: pydict where
  "frame_without_width = [(''timestamp'', PInt 3), (''frame'', PBytes ''x''), (''height'', PInt 480)]"

definition frame_with_bad_size :: pydict where
  "frame_with_bad_size =
     [(''timestamp'', PInt 3), (''frame'', PBytes ''x''), (''width'', PStr ''wide''),
      (''height'', PInt 480)]"

definition example_encoding :: "int \<Rightarrow> (nat \<times> nat \<times> int, int) Channels" where
  \<comment> \<open>The client with an encoder for its \<open>video\<close> stream that was initialised \<open>n\<close> times.\<close>
  "example_encoding n = example_client\<lparr>encoders := [(''c1'', ''video'') \<mapsto> (640, 480, n)]\<rparr>"

definition example_worn_decoding :: "(nat \<times> nat \<times> int, int) Channels" where
  \<comment> \<open>As \<open>example_decoding\<close>, with a decoder that was initialised five times.\<close>
  "example_worn_decoding = example_client\<lparr>
     decoders := [(''c1'', ''video'') \<mapsto> \<lparr>last_timestamp = PInt 10, codec = 5\<rparr>]\<rparr>"

definition empty_frame :: ndarray where
  "empty_frame = NDArray [480, 640, 3] []"

definition empty_packet :: pydict where
  "empty_packet = [(''timestamp'', PInt 12), (''frame'', PBytes [])]"

definition empty_packet_error :: pyval where
  "empty_packet_error =
     PDict [(''timestamp'', PInt 12), (''error'', PStr ''H.264 decoder error: no data'')]"

fun returned_timestamps ::
  "('e, 'd) externals \<Rightarrow> string \<times> string \<Rightarrow> ('e, 'd) Channels \<Rightarrow>
   (pydict \<times> string \<times> string option) list \<Rightarrow> pyval list" where
  "returned_timestamps ext k c [] = []"
| "returned_timestamps ext k c ((data, event, sid_arg) # calls) =
     (case image_decode ext c data event sid_arg of
        None \<Rightarrow> []
      | Some (r, c') \<Rightarrow>
          (case r of
             Inr (Some (PDict decoded)) \<Rightarrow>
               if get_client_eio_sid (sio c) sid_arg DATA_NAMESPACE = Inr (fst k) \<and> event = snd k
               then [dict_get decoded ''timestamp''] else []
           | _ \<Rightarrow> []) @ returned_timestamps ext k c' calls)"

definition timestamp_le :: "pyval \<Rightarrow> pyval \<Rightarrow> bool" where
  "timestamp_le a b =
     (case py_int a of
        None \<Rightarrow> False
      | Some x \<Rightarrow> (case py_int b of None \<Rightarrow> False | Some y \<Rightarrow> x \<le> y))"

definition photo_calls :: "(pydict \<times> string \<times> string option) list" where
  \<comment> \<open>Two frames on the JPEG channel \<open>photo\<close>, the second with the older timestamp.\<close>
  "photo_calls =
     [([(''timestamp'', PInt 5), (''frame'', PBytes ''x'')], ''photo'', None),
      ([(''timestamp'', PInt 3), (''frame'', PBytes ''y'')], ''photo'', None)]"

definition video_calls :: "(pydict \<times> string \<times> string option) list" where
  \<comment> \<open>Three frames on the H.264 channel \<open>video\<close>, the second with an older timestamp.\<close>
  "video_calls =
     [([(''timestamp'', PInt 5), (''frame'', PBytes ''x''), (''width'', PInt 640),
        (''height'', PInt 480)], ''video'', None),
      ([(''timestamp'', PInt 3), (''frame'', PBytes ''y'')], ''video'', None),
      ([(''timestamp'', PInt 9), (''frame'', PBytes ''z'')], ''video'', None)]"

section \<open>Sending: back pressure\<close>

lemma wait_loop_ready:
  "(connected s \<and> eio_state s \<noteq> []) \<or> reconnect_task s \<noteq> Some True \<Longrightarrow>
   wait_for_reconnection_loop slp s = Some s"
  by (subst wait_for_reconnection_loop.simps) auto

lemma apply_back_pressure_depth:
  "queue_depth c sid_arg = Some q \<Longrightarrow>
   apply_back_pressure c sid_arg =
     (case back_pressure_size c of
        None \<Rightarrow> Inr ()
      | Some bp \<Rightarrow> if q > bp then Inl BackPressureException else Inr ())"
  by (auto simp: apply_back_pressure_def queue_depth_def get_client_eio_sid_def
      split: option.splits if_splits)


lemma send_data_admitted:
  assumes "channel_type = JSON \<or> channel_type = JSON_LZ4"
    and "admit c sid_arg can_be_dropped = Inr ()"
    and "encode_payload ext channel_type data = Inr new_data"
    and "transport_ready (sio c) sid_arg wait"
  shows "send_data ext c data event channel_type sid_arg can_be_dropped wait =
         return () (c\<lparr>sio := emit (sio c) event new_data DATA_NAMESPACE
                                (emit_target (sio c) sid_arg)\<rparr>)"
  using assms
  by (auto simp: send_data_def transport_ready_def emit_target_def wait_loop_ready
      split: option.splits if_splits)

lemma send_data_rejected:
  assumes "admit c sid_arg can_be_dropped = Inl e"
  shows "send_data ext c data event channel_type sid_arg can_be_dropped wait =
         raise (if channel_type = JSON \<or> channel_type = JSON_LZ4 then e
                else UnknownChannelTypeUsed) c"
  using assms by (auto simp: send_data_def)

lemma send_data_frame:
  "send_data ext c data event channel_type sid_arg can_be_dropped wait = Some (r, c') \<Longrightarrow>
   c' = c\<lparr>sio := sio c'\<rparr>"
  by (auto simp: send_data_def raise_def return_def split: if_splits sum.splits option.splits)

lemma send_data_JSON_exn:
  "send_data ext c data event JSON sid_arg False wait = Some (Inl e, c') \<Longrightarrow>
   (\<exists>m. e = ValueError m) \<or> (\<exists>m. e = ConnectionError m)"
  by (auto simp: send_data_def admit_def encode_payload_def raise_def return_def
      split: if_splits sum.splits option.splits)

text \<open>
  C1, as the code has it. A droppable send that meets a queue deeper than
  \<open>back_pressure_size\<close> emits nothing and leaves the object as it was, but it is not
  silent: \<open>send_data\<close> does not catch the \<open>BackPressureException\<close> of
  \<open>_apply_back_pressure\<close>, so the caller receives it (on a channel type other than
  \<open>JSON\<close> and \<open>JSON_LZ4\<close> the caller receives \<open>UnknownChannelTypeUsed\<close> before the
  check is made).
\<close>

theorem send_data_back_pressure_raises:
  assumes "back_pressure_size c = Some bp"
    and "queue_depth c sid_arg = Some q"
    and "q > bp"
  shows "send_data ext c data event channel_type sid_arg True wait =
         Some (Inl (if channel_type = JSON \<or> channel_type = JSON_LZ4
                    then BackPressureException else UnknownChannelTypeUsed), c)"
proof -
  have "admit c sid_arg True = Inl BackPressureException"
    using assms by (simp add: admit_def apply_back_pressure_depth)
  then show ?thesis
    by (simp add: send_data_rejected raise_def)
qed

theorem send_data_back_pressure_raises_witness:
  "back_pressure_size example_client = Some 5 \<and> queue_depth example_client None = Some 6 \<and>
   (6::int) > 5 \<and>
   send_data example_externals example_client [(''x'', PInt 1)] ''ev'' JSON None True True =
     Some (Inl BackPressureException, example_client)"
proof -
  have a: "back_pressure_size example_client = Some 5"
    by (simp add: example_client_def)
  have b: "queue_depth example_client None = Some 6"
    by (simp add: queue_depth_def example_client_def example_sio_def)
  have c: "(6::int) > 5" by simp
  show ?thesis
    using send_data_back_pressure_raises
      [OF a b c, of example_externals "[(''x'', PInt 1)]" "''ev''" JSON True] a b
    by simp
qed

text \<open>
  C1 as the spec states it fails: with six packets queued against a limit of five, a
  droppable send raises \<open>BackPressureException\<close> to its caller.
\<close>

theorem send_data_drop_not_silent:
  "back_pressure_size example_client = Some 5 \<and> eio_queue_qsize (sio example_client) = 6 \<and>
   send_data example_externals example_client [(''x'', PInt 1)] ''ev'' JSON None True True =
     Some (Inl BackPressureException, example_client)"
  by (simp add: send_data_def admit_def apply_back_pressure_def raise_def example_client_def
      example_sio_def)



section \<open>\<open>send_image\<close>: the encoder\<close>

lemma send_data_JSON_no_encoder_error:
  "send_data ext c data event JSON sid_arg can_be_dropped wait = Some (Inl e, c') \<Longrightarrow>
   e \<noteq> H264EncoderError m"
  by (auto simp: send_data_def admit_def apply_back_pressure_def get_client_eio_sid_def
      encode_payload_def raise_def return_def
      split: if_splits sum.splits option.splits)

lemma send_data_then_encoder_error:
  "(case send_data ext c data event JSON sid_arg can_be_dropped wait of
      None \<Rightarrow> None
    | Some (Inl e, c4) \<Rightarrow> encoder_error ext c4 encoder_id e
    | Some (Inr _, c4) \<Rightarrow> return () c4) =
   send_data ext c data event JSON sid_arg can_be_dropped wait"
proof (cases "send_data ext c data event JSON sid_arg can_be_dropped wait")
  case None
  then show ?thesis by simp
next
  case (Some p)
  obtain r c4 where p: "p = (r, c4)" by (cases p)
  show ?thesis
  proof (cases r)
    case (Inl e)
    with Some p have "\<And>m. e \<noteq> H264EncoderError m"
      using send_data_JSON_no_encoder_error by blast
    then have "encoder_error ext c4 encoder_id e = raise e c4"
      by (cases e) (auto simp: encoder_error_def)
    with Some p Inl show ?thesis by (simp add: raise_def)
  next
    case (Inr u)
    with Some p show ?thesis by (simp add: return_def)
  qed
qed

lemma send_image_H264:
  assumes "get_client_eio_sid (sio c) sid_arg DATA_NAMESPACE = Inr eio_sid"
    and "create_encoder ext c (eio_sid, event) frame encoding_options = Inr c1"
    and "encoders c1 (eio_sid, event) = Some enc"
    and "encode_ndarray ext enc frame = (r, enc')"
  shows "send_image ext c frame event H264 timestamp metadata sid_arg can_be_dropped wait
           encoding_options =
         (let c2 = c1\<lparr>encoders := (encoders c1)((eio_sid, event) \<mapsto> enc')\<rparr> in
          case r of
            Inl e \<Rightarrow> encoder_error ext c2 (eio_sid, event) e
          | Inr frame_encoded \<Rightarrow>
              send_data ext (record_size c2 frame_encoded)
                (dict_set (dict_set (dict_set (dict_set (image_data ext timestamp metadata)
                   ''h264'' (PBool True)) ''width'' (PInt (width ext enc')))
                   ''height'' (PInt (height ext enc'))) ''frame'' (PBytes frame_encoded))
                event JSON sid_arg (can_be_dropped \<and> \<not> last_frame_is_keyframe ext enc') True)"
  using assms
  by (cases r) (simp_all add: send_image_def encode_frame_def Let_def send_data_then_encoder_error)

lemma create_encoder_existing:
  "encoders c encoder_id = Some enc \<Longrightarrow>
   create_encoder ext c encoder_id frame encoding_options = Inr c"
  by (simp add: create_encoder_def)

lemma create_encoder_new:
  "encoders c encoder_id = None \<Longrightarrow> frame_size frame = Inr (w, h) \<Longrightarrow>
   new_H264Encoder ext w h encoding_options = Inr enc \<Longrightarrow>
   create_encoder ext c encoder_id frame encoding_options =
     Inr (c\<lparr>encoders := (encoders c)(encoder_id \<mapsto> enc)\<rparr>)"
  by (simp add: create_encoder_def)

lemma map_of_dict_set: "map_of (dict_set d k v) = (map_of d)(k \<mapsto> v)"
  by (simp add: dict_set_def update_conv')

lemma send_data_ext_cong:
  assumes "sleep ext' = sleep ext" and "dumps ext' = dumps ext" and "compress ext' = compress ext"
  shows "send_data ext' c data event channel_type sid_arg can_be_dropped wait =
         send_data ext c data event channel_type sid_arg can_be_dropped wait"
  unfolding send_data_def encode_payload_def lz4_payload_def assms ..

lemma encoder_error_ext_cong:
  assumes "encoder_get_init_count ext' = encoder_get_init_count ext"
    and "encoder_init ext' = encoder_init ext"
  shows "encoder_error ext' c encoder_id e = encoder_error ext c encoder_id e"
  unfolding encoder_error_def assms ..

lemma image_data_ext_cong:
  assumes "perf_counter_ns ext' = perf_counter_ns ext"
  shows "image_data ext' timestamp metadata = image_data ext timestamp metadata"
  unfolding image_data_def assms ..

lemma send_data_rest:
  assumes "send_data ext c data event channel_type sid_arg can_be_dropped wait = Some (r, c')"
  shows "encoders c' = encoders c" and "decoders c' = decoders c"
    and "callbacks_info c' = callbacks_info c"
    and "recreate_h264_attempts_count c' = recreate_h264_attempts_count c"
proof -
  from send_data_frame [OF assms] obtain s' where "c' = c\<lparr>sio := s'\<rparr>" ..
  then show "encoders c' = encoders c" and "decoders c' = decoders c"
    and "callbacks_info c' = callbacks_info c"
    and "recreate_h264_attempts_count c' = recreate_h264_attempts_count c"
    by simp_all
qed

lemma send_image_constructor_unused:
  assumes "get_client_eio_sid (sio c) sid_arg DATA_NAMESPACE = Inr eio_sid"
    and "encoders c (eio_sid, event) = Some enc"
  shows "send_image (ext\<lparr>new_H264Encoder := ctor\<rparr>) c frame event H264 timestamp metadata
           sid_arg can_be_dropped wait options' =
         send_image ext c frame event H264 timestamp metadata sid_arg can_be_dropped wait options"
proof -
  obtain r enc' where e: "encode_ndarray ext enc frame = (r, enc')"
    by (cases "encode_ndarray ext enc frame")
  let ?ext = "ext\<lparr>new_H264Encoder := ctor\<rparr>"
  have e': "encode_ndarray ?ext enc frame = (r, enc')"
    using e by simp
  have c: "create_encoder ?ext c (eio_sid, event) frame options' = Inr c"
    "create_encoder ext c (eio_sid, event) frame options = Inr c"
    using assms(2) by (simp_all add: create_encoder_existing)
  show ?thesis
    by (cases r)
      (simp_all add: send_image_H264 [OF assms(1) c(1) assms(2) e']
        send_image_H264 [OF assms(1) c(2) assms(2) e]
        send_data_ext_cong [of ?ext ext] encoder_error_ext_cong [of ?ext ext]
        image_data_ext_cong [of ?ext ext])
qed

lemma encoder_error_encoders:
  assumes "encoder_error ext c encoder_id e = Some (r, c')"
    and "encoders c encoder_id = Some enc"
  shows "encoders c' encoder_id = Some enc \<or> encoders c' encoder_id = Some (encoder_init ext enc)"
  using assms
  by (cases e) (auto simp: encoder_error_def raise_def return_def split: if_splits)

lemma send_image_encoder_after:
  assumes key: "get_client_eio_sid (sio c) sid_arg DATA_NAMESPACE = Inr eio_sid"
    and cr: "create_encoder ext c (eio_sid, event) frame options = Inr c1"
    and enc: "encoders c1 (eio_sid, event) = Some enc"
    and call: "send_image ext c frame event H264 timestamp metadata sid_arg can_be_dropped wait
                 options = Some (r, c')"
  shows "encoders c' (eio_sid, event) = Some (snd (encode_ndarray ext enc frame)) \<or>
         encoders c' (eio_sid, event) = Some (encoder_init ext (snd (encode_ndarray ext enc frame)))"
proof -
  obtain re enc' where e: "encode_ndarray ext enc frame = (re, enc')"
    by (cases "encode_ndarray ext enc frame")
  let ?c2 = "c1\<lparr>encoders := (encoders c1)((eio_sid, event) \<mapsto> enc')\<rparr>"
  note eq = send_image_H264 [OF key cr enc e, of timestamp metadata can_be_dropped wait]
  show ?thesis
  proof (cases re)
    case (Inl x)
    with eq call have "encoder_error ext ?c2 (eio_sid, event) x = Some (r, c')"
      by simp
    from encoder_error_encoders [OF this, of enc'] e show ?thesis
      by simp
  next
    case (Inr fe)
    with eq call obtain c3 d b where
      "send_data ext c3 d event JSON sid_arg b True = Some (r, c')"
      and "c3 = record_size ?c2 fe"
      by (simp add: Let_def)
    from send_data_rest(1) [OF this(1)] this(2) have "encoders c' = encoders ?c2"
      by (simp add: record_size_def)
    with e show ?thesis by simp
  qed
qed

lemma dict_set_fresh: "k \<notin> fst ` set d \<Longrightarrow> dict_set d k v = d @ [(k, v)]"
  by (induction d) (auto simp: dict_set_def)

lemma image_data_keys: "fst ` set (image_data ext timestamp metadata) \<subseteq> {''timestamp'', ''metadata''}"
  by (auto simp: image_data_def dict_set_def Let_def split: option.splits if_splits)

lemma h264_data:
  "dict_set (dict_set (dict_set (dict_set (image_data ext timestamp metadata)
     ''h264'' h) ''width'' w) ''height'' ht) ''frame'' f =
   image_data ext timestamp metadata @
     [(''h264'', h), (''width'', w), (''height'', ht), (''frame'', f)]"
proof -
  let ?d = "image_data ext timestamp metadata"
  have k: "''h264'' \<notin> fst ` set ?d" "''width'' \<notin> fst ` set ?d"
    "''height'' \<notin> fst ` set ?d" "''frame'' \<notin> fst ` set ?d"
    using image_data_keys [of ext timestamp metadata] by auto
  show ?thesis
    using k by (simp add: dict_set_fresh image_Un)
qed

text \<open>
  C5. When the encoder of an H.264 channel reports a keyframe, \<open>send_image\<close> is exactly
  the call of \<open>send_data\<close> with \<open>can_be_dropped = False\<close>, whatever the caller's
  \<open>can_be_dropped\<close>, on the object that holds the encoder as the encoding left it (and
  the frame's size, when \<open>stats\<close> is set), and with the data made of the timestamp, the
  metadata if any, \<open>h264 = True\<close>, the encoder's \<open>width()\<close> and \<open>height()\<close>, and the
  encoded frame.
\<close>

theorem keyframe_sent_not_droppable:
  assumes "get_client_eio_sid (sio c) sid_arg DATA_NAMESPACE = Inr eio_sid"
    and "create_encoder ext c (eio_sid, event) frame encoding_options = Inr c1"
    and "encoders c1 (eio_sid, event) = Some enc"
    and "encode_ndarray ext enc frame = (Inr frame_encoded, enc')"
    and "last_frame_is_keyframe ext enc'"
  shows "send_image ext c frame event H264 timestamp metadata sid_arg can_be_dropped wait
           encoding_options =
         send_data ext
           (record_size (c1\<lparr>encoders := (encoders c1)((eio_sid, event) \<mapsto> enc')\<rparr>) frame_encoded)
           (image_data ext timestamp metadata @
              [(''h264'', PBool True), (''width'', PInt (width ext enc')),
               (''height'', PInt (height ext enc')), (''frame'', PBytes frame_encoded)])
           event JSON sid_arg False True"
  using assms(5) by (simp add: send_image_H264 [OF assms(1-4)] h264_data)

theorem keyframe_sent_not_droppable_witness:
  "get_client_eio_sid (sio example_client) None DATA_NAMESPACE = Inr ''c1'' \<and>
   create_encoder example_externals example_client (''c1'', ''video'') example_frame None =
     Inr (example_client\<lparr>encoders := [(''c1'', ''video'') \<mapsto> (640, 480, 0)]\<rparr>) \<and>
   encode_ndarray example_externals (640, 480, 0) example_frame = (Inr ''nal'', (640, 480, 0)) \<and>
   last_frame_is_keyframe example_externals (640, 480, 0) \<and>
   send_image example_externals example_client example_frame ''video'' H264 (Some 7) None None
     True True None =
   send_data example_externals
     (example_client\<lparr>encoders := [(''c1'', ''video'') \<mapsto> (640, 480, 0)]\<rparr>)
     [(''timestamp'', PInt 7), (''h264'', PBool True), (''width'', PInt 640),
      (''height'', PInt 480), (''frame'', PBytes ''nal'')]
     ''video'' JSON None False True \<and>
   send_data example_externals
     (example_client\<lparr>encoders := [(''c1'', ''video'') \<mapsto> (640, 480, 0)]\<rparr>)
     [(''timestamp'', PInt 7), (''h264'', PBool True), (''width'', PInt 640),
      (''height'', PInt 480), (''frame'', PBytes ''nal'')]
     ''video'' JSON None False True = Some (Inr (), first_sent)"
proof -
  have k: "get_client_eio_sid (sio example_client) None DATA_NAMESPACE = Inr ''c1''"
    by (simp add: get_client_eio_sid_def example_client_def example_sio_def str_opt_def)
  have c: "create_encoder example_externals example_client (''c1'', ''video'') example_frame None =
     Inr (example_client\<lparr>encoders := [(''c1'', ''video'') \<mapsto> (640, 480, 0)]\<rparr>)"
    by (simp add: create_encoder_def frame_size_def example_frame_def example_externals_def
        example_client_def)
  have e: "encoders (example_client\<lparr>encoders := [(''c1'', ''video'') \<mapsto> (640, 480, 0)]\<rparr>)
             (''c1'', ''video'') = Some (640, 480, 0)"
    by simp
  have n: "encode_ndarray example_externals (640, 480, 0) example_frame =
             (Inr ''nal'', (640, 480, 0))"
    by (simp add: example_externals_def example_frame_def)
  have f: "last_frame_is_keyframe example_externals (640, 480, 0)"
    by (simp add: example_externals_def)
  have w: "width example_externals (640, 480, 0) = 640" "height example_externals (640, 480, 0) = 480"
    by (simp_all add: example_externals_def)
  have i: "image_data example_externals (Some 7) None = [(''timestamp'', PInt 7)]"
    by (simp add: image_data_def)
  have r: "record_size (example_client\<lparr>encoders := [(''c1'', ''video'') \<mapsto> (640, 480, 0)]\<rparr>) b =
           example_client\<lparr>encoders := [(''c1'', ''video'') \<mapsto> (640, 480, 0)]\<rparr>" for b
    by (simp add: record_size_def example_client_def)
  have s: "send_data example_externals
     (example_client\<lparr>encoders := [(''c1'', ''video'') \<mapsto> (640, 480, 0)]\<rparr>)
     [(''timestamp'', PInt 7), (''h264'', PBool True), (''width'', PInt 640),
      (''height'', PInt 480), (''frame'', PBytes ''nal'')]
     ''video'' JSON None False True = Some (Inr (), first_sent)"
    by (simp add: send_data_def admit_def encode_payload_def emit_def return_def
        DATA_NAMESPACE_def wait_loop_ready first_sent_def example_client_def example_sio_def)
  from keyframe_sent_not_droppable [OF k c e n f, of "Some 7" None True True] k c n f s
  show ?thesis by (simp add: w i r)
qed

lemmas example_defs =
  example_client_def example_sio_def example_externals_def example_frame_def small_frame_def

lemmas send_image_defs =
  send_image_def image_data_def get_client_eio_sid_def str_opt_def create_encoder_def
  frame_size_def encode_frame_def encoder_error_def record_size_def dict_set_def
  send_data_def admit_def apply_back_pressure_def encode_payload_def emit_def
  raise_def return_def DATA_NAMESPACE_def

lemma example_first_send:
  "send_image example_externals example_client example_frame ''video'' H264 (Some 7) None None
        True True None =
   Some (Inr (), example_client\<lparr>
     encoders := [(''c1'', ''video'') \<mapsto> (640, 480, 0)],
     sio := example_sio\<lparr>emitted :=
       [(''video'',
         PDict [(''timestamp'', PInt 7), (''h264'', PBool True), (''width'', PInt 640),
                (''height'', PInt 480), (''frame'', PBytes ''nal'')],
         ''/data'', None)]\<rparr>\<rparr>)"
  by (simp add: send_image_defs example_defs wait_loop_ready)

text \<open>
  C7. The first \<open>send_image\<close> on an H.264 stream creates the encoder from the first
  frame's size and options; the object then holds that encoder (as the first call's
  \<open>encode_ndarray\<close>, and \<open>encoder_init\<close> after an error, left it). The second call on the
  same stream does not depend on the constructor or on its own options, and it leaves the
  encoder it found, encoded with once more, in the object.
\<close>

theorem encoder_created_once:
  assumes key: "get_client_eio_sid (sio c) sid_arg DATA_NAMESPACE = Inr eio_sid"
    and fresh: "encoders c (eio_sid, event) = None"
    and size: "frame_size frame1 = Inr (w, h)"
    and ctor: "new_H264Encoder ext w h options1 = Inr enc0"
    and first: "send_image ext c frame1 event H264 ts1 md1 sid_arg drop1 wait1 options1 =
                  Some (r1, c1)"
    and key1: "get_client_eio_sid (sio c1) sid_arg DATA_NAMESPACE = Inr eio_sid"
  shows "\<exists>enc1.
           encoders c1 (eio_sid, event) = Some enc1 \<and>
           (enc1 = snd (encode_ndarray ext enc0 frame1) \<or>
            enc1 = encoder_init ext (snd (encode_ndarray ext enc0 frame1))) \<and>
           send_image (ext\<lparr>new_H264Encoder := ctor'\<rparr>) c1 frame2 event H264 ts2 md2 sid_arg
             drop2 wait2 options2' =
           send_image ext c1 frame2 event H264 ts2 md2 sid_arg drop2 wait2 options2 \<and>
           (\<forall>r2 c2.
              send_image ext c1 frame2 event H264 ts2 md2 sid_arg drop2 wait2 options2 =
                Some (r2, c2) \<longrightarrow>
              encoders c2 (eio_sid, event) = Some (snd (encode_ndarray ext enc1 frame2)) \<or>
              encoders c2 (eio_sid, event) =
                Some (encoder_init ext (snd (encode_ndarray ext enc1 frame2))))"
proof -
  let ?k = "(eio_sid, event)"
  let ?c0 = "c\<lparr>encoders := (encoders c)(?k \<mapsto> enc0)\<rparr>"
  have cr: "create_encoder ext c ?k frame1 options1 = Inr ?c0"
    using fresh size ctor by (rule create_encoder_new)
  have "encoders ?c0 ?k = Some enc0" by simp
  from send_image_encoder_after [OF key cr this first]
  obtain enc1 where enc1: "encoders c1 ?k = Some enc1"
    and from0: "enc1 = snd (encode_ndarray ext enc0 frame1) \<or>
                enc1 = encoder_init ext (snd (encode_ndarray ext enc0 frame1))"
    by auto
  have same: "send_image (ext\<lparr>new_H264Encoder := ctor'\<rparr>) c1 frame2 event H264 ts2 md2 sid_arg
             drop2 wait2 options2' =
           send_image ext c1 frame2 event H264 ts2 md2 sid_arg drop2 wait2 options2"
    using key1 enc1 by (rule send_image_constructor_unused)
  have cr1: "create_encoder ext c1 ?k frame2 options2 = Inr c1"
    using enc1 by (rule create_encoder_existing)
  have after: "encoders c2 ?k = Some (snd (encode_ndarray ext enc1 frame2)) \<or>
               encoders c2 ?k = Some (encoder_init ext (snd (encode_ndarray ext enc1 frame2)))"
    if "send_image ext c1 frame2 event H264 ts2 md2 sid_arg drop2 wait2 options2 = Some (r2, c2)"
    for r2 c2
    using send_image_encoder_after [OF key1 cr1 enc1 that] .
  from enc1 from0 same after show ?thesis by blast
qed

lemma example_second_send:
  "send_image example_externals first_sent small_frame ''video'' H264 (Some 8) None None
        True True (Some [(''crf'', ''0'')]) = Some (Inr (), second_sent)"
  by (simp add: send_image_defs example_defs wait_loop_ready first_sent_def second_sent_def)

theorem encoder_created_once_witness:
  "get_client_eio_sid (sio example_client) None DATA_NAMESPACE = Inr ''c1'' \<and>
   encoders example_client (''c1'', ''video'') = None \<and>
   frame_size example_frame = Inr (640, 480) \<and>
   new_H264Encoder example_externals 640 480 None = Inr (640, 480, 0) \<and>
   send_image example_externals example_client example_frame ''video'' H264 (Some 7) None None
     True True None = Some (Inr (), first_sent) \<and>
   get_client_eio_sid (sio first_sent) None DATA_NAMESPACE = Inr ''c1'' \<and>
   encoders first_sent (''c1'', ''video'') = Some (640, 480, 0) \<and>
   send_image (example_externals\<lparr>new_H264Encoder := (\<lambda>w h opts. Inl (OtherException ''unused''))\<rparr>)
     first_sent small_frame ''video'' H264 (Some 8) None None True True None =
   send_image example_externals first_sent small_frame ''video'' H264 (Some 8) None None True True
     (Some [(''crf'', ''0'')]) \<and>
   send_image example_externals first_sent small_frame ''video'' H264 (Some 8) None None True True
     (Some [(''crf'', ''0'')]) = Some (Inr (), second_sent) \<and>
   encoders second_sent (''c1'', ''video'') = Some (640, 480, 0)"
proof -
  have k: "get_client_eio_sid (sio example_client) None DATA_NAMESPACE = Inr ''c1''"
    by (simp add: get_client_eio_sid_def example_client_def example_sio_def str_opt_def)
  have f: "encoders example_client (''c1'', ''video'') = None"
    by (simp add: example_client_def)
  have s: "frame_size example_frame = Inr (640, 480)"
    by (simp add: frame_size_def example_frame_def)
  have n: "new_H264Encoder example_externals 640 480 None = Inr (640, 480, 0)"
    by (simp add: example_externals_def)
  have k1: "get_client_eio_sid (sio first_sent) None DATA_NAMESPACE = Inr ''c1''"
    by (simp add: get_client_eio_sid_def first_sent_def example_client_def example_sio_def str_opt_def)
  have e1: "encoders first_sent (''c1'', ''video'') = Some (640, 480, 0)"
    by (simp add: first_sent_def)
  have e2: "encoders second_sent (''c1'', ''video'') = Some (640, 480, 0)"
    by (simp add: second_sent_def first_sent_def)
  from encoder_created_once [OF k f s n example_first_send [folded first_sent_def] k1,
      of "\<lambda>w h opts. Inl (OtherException ''unused'')" small_frame "Some 8" None True True None
        "Some [(''crf'', ''0'')]"]
  have "send_image (example_externals\<lparr>new_H264Encoder := (\<lambda>w h opts. Inl (OtherException ''unused''))\<rparr>)
     first_sent small_frame ''video'' H264 (Some 8) None None True True None =
   send_image example_externals first_sent small_frame ''video'' H264 (Some 8) None None True True
     (Some [(''crf'', ''0'')])"
    by blast
  with k f s n example_first_send [folded first_sent_def] k1 e1 example_second_send e2 show ?thesis
    by simp
qed

section \<open>\<open>image_decode\<close>: the timestamp check\<close>

lemma send_error_ready:
  assumes "transport_ready (sio c) sid_arg True"
  shows "send_error ext c data error_ev sid_arg =
         Some (Inr None, c\<lparr>sio := emit (sio c) error_ev (PDict data) DATA_NAMESPACE
                                    (emit_target (sio c) sid_arg)\<rparr>)"
proof -
  have "send_data ext c data error_ev JSON sid_arg False True =
        return () (c\<lparr>sio := emit (sio c) error_ev (PDict data) DATA_NAMESPACE
                                (emit_target (sio c) sid_arg)\<rparr>)"
    using assms by (intro send_data_admitted) (simp_all add: admit_def encode_payload_def)
  then show ?thesis
    by (simp add: send_error_def return_def)
qed

lemma send_error_rest:
  assumes "send_error ext c data error_ev sid_arg = Some (r, c')"
  shows "decoders c' = decoders c" and "encoders c' = encoders c"
    and "callbacks_info c' = callbacks_info c"
    and "recreate_h264_attempts_count c' = recreate_h264_attempts_count c"
    and "r = Inr None \<or> (\<exists>m. r = Inl (ValueError m)) \<or> (\<exists>m. r = Inl (ConnectionError m))"
proof -
  from assms obtain r0 where sd: "send_data ext c data error_ev JSON sid_arg False True = Some (r0, c')"
    and r: "r = (case r0 of Inl e \<Rightarrow> Inl e | Inr _ \<Rightarrow> Inr None)"
    by (auto simp: send_error_def raise_def return_def split: option.splits sum.splits)
  from send_data_rest [OF sd]
  show "decoders c' = decoders c" and "encoders c' = encoders c"
    and "callbacks_info c' = callbacks_info c"
    and "recreate_h264_attempts_count c' = recreate_h264_attempts_count c"
    by simp_all
  show "r = Inr None \<or> (\<exists>m. r = Inl (ValueError m)) \<or> (\<exists>m. r = Inl (ConnectionError m))"
  proof (cases r0)
    case (Inl e)
    with sd send_data_JSON_exn [of ext c data error_ev sid_arg True e c'] r show ?thesis
      by auto
  next
    case (Inr u)
    with r show ?thesis by simp
  qed
qed

lemma send_error_ext_cong:
  assumes "sleep ext' = sleep ext" and "dumps ext' = dumps ext" and "compress ext' = compress ext"
  shows "send_error ext' c data error_ev sid_arg = send_error ext c data error_ev sid_arg"
  unfolding send_error_def send_data_ext_cong [OF assms] ..

lemma image_decode_with_frame:
  assumes "dict_has data ''frame''"
    and "get_client_eio_sid (sio c) sid_arg DATA_NAMESPACE = Inr eio_sid"
    and "callbacks_info c event = Some ci"
  shows "image_decode ext c data event sid_arg =
         (case create_decoder ext c ci (eio_sid, event) data (data_timestamp data) of
            Inl error_data \<Rightarrow> send_error ext c error_data (error_event ci) sid_arg
          | Inr c1 \<Rightarrow>
              check_timestamp ext c1 ci (eio_sid, event) data (data_timestamp data) sid_arg)"
  using assms by (simp add: image_decode_def Let_def)

lemma image_decode_without_frame:
  assumes "\<not> dict_has data ''frame''" and "callbacks_info c event = Some ci"
  shows "image_decode ext c data event sid_arg =
         send_error ext c
           [(''timestamp'', data_timestamp data), (''error'', PStr ''Data does not contain frame.'')]
           (error_event ci) sid_arg"
  using assms by (simp add: image_decode_def Let_def)

lemma create_decoder_existing:
  "decoders c decoder_id = Some d \<Longrightarrow> create_decoder ext c ci decoder_id data timestamp = Inr c"
  by (simp add: create_decoder_def)

lemma check_timestamp_older:
  assumes "decoders c decoder_id = Some d"
    and "py_int timestamp = Some t" and "py_int (last_timestamp d) = Some l" and "t < l"
  shows "check_timestamp ext c ci decoder_id data timestamp sid_arg =
         send_error ext c
           [(''timestamp'', timestamp),
            (''error'', PStr (older_timestamp timestamp (last_timestamp d) (t - l)))]
           (error_event ci) sid_arg"
  using assms by (simp add: check_timestamp_def py_sub_def)

lemma check_timestamp_newer:
  assumes "decoders c decoder_id = Some d"
    and "py_int timestamp = Some t" and "py_int (last_timestamp d) = Some l" and "l \<le> t"
  shows "check_timestamp ext c ci decoder_id data timestamp sid_arg =
         decode_frame ext
           (c\<lparr>decoders := (decoders c)(decoder_id \<mapsto> d\<lparr>last_timestamp := timestamp\<rparr>)\<rparr>)
           ci decoder_id data timestamp sid_arg"
  using assms by (simp add: check_timestamp_def py_sub_def)

lemma decode_frame_decoder:
  assumes "decode_frame ext c ci decoder_id data timestamp sid_arg = Some (r, c')"
    and "decoders c k = Some d"
  shows "\<exists>d'. decoders c' k = Some d' \<and> last_timestamp d' = last_timestamp d"
proof (cases "decoders c decoder_id")
  case None
  with assms show ?thesis
    by (auto simp: decode_frame_def return_def split: sum.splits dest: send_error_rest(1))
next
  case (Some d0)
  obtain re cd where e: "decode_packet_data ext (codec d0) (dict_get data ''frame'') = (re, cd)"
    by (cases "decode_packet_data ext (codec d0) (dict_get data ''frame'')")
  show ?thesis
  proof (cases re)
    case (Inr fr)
    with assms Some e show ?thesis
      by (auto simp: decode_frame_def return_def)
  next
    case (Inl x)
    show ?thesis
    proof (cases "\<exists>m. x = H264DecoderError m")
      case False
      with assms Some e Inl show ?thesis
        by (cases x) (auto simp: decode_frame_def raise_def)
    next
      case True
      then obtain m where "x = H264DecoderError m" ..
      with assms Some e Inl show ?thesis
        by (auto simp: decode_frame_def Let_def split: if_splits dest!: send_error_rest(1))
    qed
  qed
qed

text \<open>
  C4. Let the data carry a frame and let a decoder exist for the stream. When the
  timestamp is strictly less than the decoder's \<open>last_timestamp\<close>, \<open>image_decode\<close> is
  exactly the sending of the ordering error to the channel's error event followed by
  \<open>return None\<close>: it does not depend on the decoding functions (no decode is attempted),
  it returns no record, it leaves the decoders (and so \<open>last_timestamp\<close>) as they were,
  and on a transport that is ready the error data is emitted and \<open>None\<close> returned.
  Otherwise the decoder's \<open>last_timestamp\<close> is the incoming timestamp after the call.
\<close>

theorem older_timestamp_rejected:
  assumes frame: "dict_has data ''frame''"
    and key: "get_client_eio_sid (sio c) sid_arg DATA_NAMESPACE = Inr eio_sid"
    and info: "callbacks_info c event = Some ci"
    and dec: "decoders c (eio_sid, event) = Some d"
    and t: "py_int (data_timestamp data) = Some t"
    and l: "py_int (last_timestamp d) = Some l"
  shows "(t < l \<longrightarrow>
           image_decode ext c data event sid_arg =
             send_error ext c
               [(''timestamp'', data_timestamp data),
                (''error'', PStr (older_timestamp (data_timestamp data) (last_timestamp d) (t - l)))]
               (error_event ci) sid_arg \<and>
           image_decode (ext\<lparr>decode_packet_data := dec', imdecode := imdec'\<rparr>) c data event sid_arg =
             image_decode ext c data event sid_arg \<and>
           (\<forall>r c'. image_decode ext c data event sid_arg = Some (r, c') \<longrightarrow>
              (\<forall>v. r \<noteq> Inr (Some v)) \<and> decoders c' = decoders c) \<and>
           (transport_ready (sio c) sid_arg True \<longrightarrow>
              image_decode ext c data event sid_arg =
                Some (Inr None,
                      c\<lparr>sio := emit (sio c) (error_event ci)
                         (PDict [(''timestamp'', data_timestamp data),
                                 (''error'', PStr (older_timestamp (data_timestamp data)
                                    (last_timestamp d) (t - l)))])
                         DATA_NAMESPACE (emit_target (sio c) sid_arg)\<rparr>))) \<and>
         (l \<le> t \<longrightarrow>
            (\<forall>r c'. image_decode ext c data event sid_arg = Some (r, c') \<longrightarrow>
               (\<exists>d'. decoders c' (eio_sid, event) = Some d' \<and>
                     last_timestamp d' = data_timestamp data)))"
proof (intro conjI impI allI)
  let ?err = "[(''timestamp'', data_timestamp data),
               (''error'', PStr (older_timestamp (data_timestamp data) (last_timestamp d) (t - l)))]"
  have step: "image_decode x c data event sid_arg =
        check_timestamp x c ci (eio_sid, event) data (data_timestamp data) sid_arg" for x
    by (simp add: image_decode_with_frame [OF frame key info] create_decoder_existing [OF dec])
  {
    assume old: "t < l"
    have eq: "image_decode x c data event sid_arg = send_error x c ?err (error_event ci) sid_arg"
      for x :: "('a, 'b) externals"
      by (simp add: step check_timestamp_older [OF dec t l old])
    show "image_decode ext c data event sid_arg = send_error ext c ?err (error_event ci) sid_arg"
      by (rule eq)
    show "image_decode (ext\<lparr>decode_packet_data := dec', imdecode := imdec'\<rparr>) c data event sid_arg =
          image_decode ext c data event sid_arg"
      by (simp add: eq
          send_error_ext_cong [of "ext\<lparr>decode_packet_data := dec', imdecode := imdec'\<rparr>" ext])
    show "transport_ready (sio c) sid_arg True \<Longrightarrow>
          image_decode ext c data event sid_arg =
            Some (Inr None, c\<lparr>sio := emit (sio c) (error_event ci) (PDict ?err) DATA_NAMESPACE
                                       (emit_target (sio c) sid_arg)\<rparr>)"
      by (simp add: eq send_error_ready)
    fix r c' assume "image_decode ext c data event sid_arg = Some (r, c')"
    then have se: "send_error ext c ?err (error_event ci) sid_arg = Some (r, c')"
      by (simp add: eq)
    from send_error_rest(5) [OF se] show "r \<noteq> Inr (Some v)" for v
      by auto
    from send_error_rest(1) [OF se] show "decoders c' = decoders c" .
  }
  {
    fix r c'
    assume new: "l \<le> t" and "image_decode ext c data event sid_arg = Some (r, c')"
    then have "decode_frame ext
           (c\<lparr>decoders := (decoders c)((eio_sid, event) \<mapsto> d\<lparr>last_timestamp := data_timestamp data\<rparr>)\<rparr>)
           ci (eio_sid, event) data (data_timestamp data) sid_arg = Some (r, c')"
      by (simp add: step check_timestamp_newer [OF dec t l new])
    from decode_frame_decoder [OF this, of "(eio_sid, event)"]
    show "\<exists>d'. decoders c' (eio_sid, event) = Some d' \<and> last_timestamp d' = data_timestamp data"
      by simp
  }
qed

lemmas image_decode_defs =
  image_decode_def data_timestamp_def dict_has_def dict_get_def dict_set_def
  get_client_eio_sid_def str_opt_def create_decoder_def check_timestamp_def py_sub_def
  decode_frame_def decoded_data_def older_timestamp_def str_int_def digits.simps
  send_error_def send_data_def admit_def encode_payload_def emit_def raise_def return_def
  DATA_NAMESPACE_def DATA_ERROR_EVENT_def Let_def

lemmas example_defs2 = example_defs example_decoding_def

lemma example_older_frame:
  "image_decode example_externals example_decoding older_frame ''video'' None =
   Some (Inr None, example_decoding\<lparr>sio := example_sio\<lparr>emitted :=
     [(''data_error'', older_frame_error, ''/data'', None)]\<rparr>\<rparr>)"
  by (simp add: image_decode_defs example_defs2 older_frame_def older_frame_error_def
      wait_loop_ready)

lemma example_newer_frame:
  "image_decode example_externals example_decoding newer_frame ''video'' None =
   Some (Inr (Some (PDict [(''frame'', PArray (NDArray [1, 1, 3] [0, 0, 0])),
                           (''timestamp'', PInt 12)])),
         example_decoding\<lparr>decoders :=
           [(''c1'', ''video'') \<mapsto> \<lparr>last_timestamp = PInt 12, codec = 0\<rparr>]\<rparr>)"
  by (simp add: image_decode_defs example_defs2 newer_frame_def)

theorem older_timestamp_rejected_witness:
  "dict_has older_frame ''frame'' \<and> dict_has newer_frame ''frame'' \<and>
   get_client_eio_sid (sio example_decoding) None DATA_NAMESPACE = Inr ''c1'' \<and>
   callbacks_info example_decoding ''video'' = Some \<lparr>type = H264, error_event = DATA_ERROR_EVENT\<rparr> \<and>
   decoders example_decoding (''c1'', ''video'') = Some \<lparr>last_timestamp = PInt 10, codec = 0\<rparr> \<and>
   py_int (data_timestamp older_frame) = Some 4 \<and>
   py_int (data_timestamp newer_frame) = Some 12 \<and>
   py_int (PInt 10) = Some 10 \<and> (4::int) < 10 \<and> (10::int) \<le> 12 \<and>
   transport_ready (sio example_decoding) None True \<and>
   image_decode example_externals example_decoding older_frame ''video'' None =
     Some (Inr None, example_decoding\<lparr>sio := example_sio\<lparr>emitted :=
       [(''data_error'', older_frame_error, ''/data'', None)]\<rparr>\<rparr>) \<and>
   image_decode example_externals example_decoding newer_frame ''video'' None =
     Some (Inr (Some (PDict [(''frame'', PArray (NDArray [1, 1, 3] [0, 0, 0])),
                             (''timestamp'', PInt 12)])),
           example_decoding\<lparr>decoders :=
             [(''c1'', ''video'') \<mapsto> \<lparr>last_timestamp = PInt 12, codec = 0\<rparr>]\<rparr>) \<and>
   (\<exists>d'. decoders (example_decoding\<lparr>decoders :=
             [(''c1'', ''video'') \<mapsto> \<lparr>last_timestamp = PInt 12, codec = 0\<rparr>]\<rparr>)
           (''c1'', ''video'') = Some d' \<and>
         last_timestamp d' = data_timestamp newer_frame)"
proof -
  have f: "dict_has older_frame ''frame''" "dict_has newer_frame ''frame''"
    by (simp_all add: dict_has_def older_frame_def newer_frame_def)
  have k: "get_client_eio_sid (sio example_decoding) None DATA_NAMESPACE = Inr ''c1''"
    by (simp add: get_client_eio_sid_def str_opt_def example_defs2)
  have i: "callbacks_info example_decoding ''video'' =
             Some \<lparr>type = H264, error_event = DATA_ERROR_EVENT\<rparr>"
    by (simp add: example_defs2)
  have d: "decoders example_decoding (''c1'', ''video'') =
             Some \<lparr>last_timestamp = PInt 10, codec = 0\<rparr>"
    by (simp add: example_defs2)
  have t: "py_int (data_timestamp older_frame) = Some 4"
    "py_int (data_timestamp newer_frame) = Some 12"
    by (simp_all add: data_timestamp_def dict_has_def dict_get_def older_frame_def newer_frame_def)
  have l: "py_int (last_timestamp \<lparr>last_timestamp = PInt 10, codec = 0::int\<rparr>) = Some 10"
    by simp
  have r: "transport_ready (sio example_decoding) None True"
    by (simp add: transport_ready_def example_defs2)
  note old = older_timestamp_rejected [OF f(1) k i d t(1) l, of example_externals]
  note new = older_timestamp_rejected [OF f(2) k i d t(2) l, of example_externals]
  from new example_newer_frame
  have "\<exists>d'. decoders (example_decoding\<lparr>decoders :=
             [(''c1'', ''video'') \<mapsto> \<lparr>last_timestamp = PInt 12, codec = 0\<rparr>]\<rparr>)
           (''c1'', ''video'') = Some d' \<and>
         last_timestamp d' = data_timestamp newer_frame"
    by simp
  with old f k i d t r example_older_frame example_newer_frame show ?thesis
    by simp
qed

section \<open>\<open>image_decode\<close>: missing fields\<close>

lemma example_untimed_frame:
  "image_decode example_externals example_decoding untimed_frame ''video'' None =
   Some (Inr None, example_decoding\<lparr>sio := example_sio\<lparr>emitted :=
     [(''data_error'', untimed_frame_error, ''/data'', None)]\<rparr>\<rparr>)"
  by (simp add: image_decode_defs example_defs2 untimed_frame_def untimed_frame_error_def
      wait_loop_ready)

text \<open>
  C10. Data without a \<open>timestamp\<close> is given the timestamp 0. So when the data carries a
  frame and the stream's decoder holds a \<open>last_timestamp\<close> greater than 0, \<open>image_decode\<close>
  is exactly the sending of the ordering error (timestamp 0) to the channel's error event
  followed by \<open>return None\<close>: it does not depend on the decoding functions, returns no
  record and leaves the decoders as they were.
\<close>

theorem missing_timestamp_rejected:
  assumes none: "\<not> dict_has data ''timestamp''"
    and frame: "dict_has data ''frame''"
    and key: "get_client_eio_sid (sio c) sid_arg DATA_NAMESPACE = Inr eio_sid"
    and info: "callbacks_info c event = Some ci"
    and dec: "decoders c (eio_sid, event) = Some d"
    and l: "py_int (last_timestamp d) = Some l"
    and pos: "0 < l"
  shows "data_timestamp data = PInt 0 \<and>
         image_decode ext c data event sid_arg =
           send_error ext c
             [(''timestamp'', PInt 0),
              (''error'', PStr (older_timestamp (PInt 0) (last_timestamp d) (0 - l)))]
             (error_event ci) sid_arg \<and>
         image_decode (ext\<lparr>decode_packet_data := dec', imdecode := imdec'\<rparr>) c data event sid_arg =
           image_decode ext c data event sid_arg \<and>
         (\<forall>r c'. image_decode ext c data event sid_arg = Some (r, c') \<longrightarrow>
            (\<forall>v. r \<noteq> Inr (Some v)) \<and> decoders c' = decoders c) \<and>
         (transport_ready (sio c) sid_arg True \<longrightarrow>
            image_decode ext c data event sid_arg =
              Some (Inr None,
                    c\<lparr>sio := emit (sio c) (error_event ci)
                       (PDict [(''timestamp'', PInt 0),
                               (''error'', PStr (older_timestamp (PInt 0) (last_timestamp d) (0 - l)))])
                       DATA_NAMESPACE (emit_target (sio c) sid_arg)\<rparr>))"
proof (intro conjI impI allI)
  let ?err = "[(''timestamp'', PInt 0),
               (''error'', PStr (older_timestamp (PInt 0) (last_timestamp d) (0 - l)))]"
  show ts: "data_timestamp data = PInt 0"
    using none by (simp add: data_timestamp_def)
  have t: "py_int (PInt 0) = Some 0" by simp
  have eq: "image_decode x c data event sid_arg = send_error x c ?err (error_event ci) sid_arg"
    for x :: "('a, 'b) externals"
    using check_timestamp_older [OF dec t l pos, of x ci data sid_arg]
    by (simp add: image_decode_with_frame [OF frame key info] create_decoder_existing [OF dec] ts)
  show "image_decode ext c data event sid_arg = send_error ext c ?err (error_event ci) sid_arg"
    by (rule eq)
  show "image_decode (ext\<lparr>decode_packet_data := dec', imdecode := imdec'\<rparr>) c data event sid_arg =
        image_decode ext c data event sid_arg"
    by (simp add: eq
        send_error_ext_cong [of "ext\<lparr>decode_packet_data := dec', imdecode := imdec'\<rparr>" ext])
  show "transport_ready (sio c) sid_arg True \<Longrightarrow>
        image_decode ext c data event sid_arg =
          Some (Inr None, c\<lparr>sio := emit (sio c) (error_event ci) (PDict ?err) DATA_NAMESPACE
                                     (emit_target (sio c) sid_arg)\<rparr>)"
    by (simp add: eq send_error_ready)
  fix r c' assume "image_decode ext c data event sid_arg = Some (r, c')"
  then have se: "send_error ext c ?err (error_event ci) sid_arg = Some (r, c')"
    by (simp add: eq)
  from send_error_rest(5) [OF se] show "r \<noteq> Inr (Some v)" for v
    by auto
  from send_error_rest(1) [OF se] show "decoders c' = decoders c" .
qed

theorem missing_timestamp_rejected_witness:
  "\<not> dict_has untimed_frame ''timestamp'' \<and> dict_has untimed_frame ''frame'' \<and>
   get_client_eio_sid (sio example_decoding) None DATA_NAMESPACE = Inr ''c1'' \<and>
   callbacks_info example_decoding ''video'' = Some \<lparr>type = H264, error_event = DATA_ERROR_EVENT\<rparr> \<and>
   decoders example_decoding (''c1'', ''video'') = Some \<lparr>last_timestamp = PInt 10, codec = 0\<rparr> \<and>
   py_int (PInt 10) = Some 10 \<and> (0::int) < 10 \<and>
   transport_ready (sio example_decoding) None True \<and>
   data_timestamp untimed_frame = PInt 0 \<and>
   image_decode example_externals example_decoding untimed_frame ''video'' None =
     Some (Inr None, example_decoding\<lparr>sio := example_sio\<lparr>emitted :=
       [(''data_error'', untimed_frame_error, ''/data'', None)]\<rparr>\<rparr>)"
proof -
  have n: "\<not> dict_has untimed_frame ''timestamp''"
    by (simp add: dict_has_def untimed_frame_def)
  have f: "dict_has untimed_frame ''frame''"
    by (simp add: dict_has_def untimed_frame_def)
  have k: "get_client_eio_sid (sio example_decoding) None DATA_NAMESPACE = Inr ''c1''"
    by (simp add: get_client_eio_sid_def str_opt_def example_defs2)
  have i: "callbacks_info example_decoding ''video'' =
             Some \<lparr>type = H264, error_event = DATA_ERROR_EVENT\<rparr>"
    by (simp add: example_defs2)
  have d: "decoders example_decoding (''c1'', ''video'') =
             Some \<lparr>last_timestamp = PInt 10, codec = 0\<rparr>"
    by (simp add: example_defs2)
  have l: "py_int (last_timestamp \<lparr>last_timestamp = PInt 10, codec = 0::int\<rparr>) = Some 10"
    by simp
  have p: "(0::int) < 10" by simp
  have r: "transport_ready (sio example_decoding) None True"
    by (simp add: transport_ready_def example_defs2)
  from missing_timestamp_rejected [OF n f k i d l p, of example_externals]
    n f k i d r example_untimed_frame
  show ?thesis by simp
qed

lemma example_frame_without_width:
  "image_decode example_externals example_client frame_without_width ''video'' None =
   Some (Inr None, example_client\<lparr>sio := example_sio\<lparr>emitted :=
     [(''data_error'',
       PDict [(''timestamp'', PInt 3),
              (''error'', PStr ''Data does not contain width or height, it is mandatory for H.264.'')],
       ''/data'', None)]\<rparr>\<rparr>)"
  by (simp add: image_decode_defs example_defs2 frame_without_width_def wait_loop_ready)

lemma example_frame_with_bad_size:
  "image_decode example_externals example_client frame_with_bad_size ''video'' None =
   Some (Inr None, example_client\<lparr>sio := example_sio\<lparr>emitted :=
     [(''data_error'',
       PDict [(''timestamp'', PInt 3),
              (''error'', PStr ''Cannot create H.264 decoder: Exception()'')],
       ''/data'', None)]\<rparr>\<rparr>)"
  by (simp add: image_decode_defs example_defs2 frame_with_bad_size_def wait_loop_ready)

lemma create_decoder_fails:
  assumes "type ci = H264" and "decoders c decoder_id = None"
    and "\<not> dict_has data ''width'' \<or> \<not> dict_has data ''height'' \<or>
         (\<exists>e. new_H264Decoder ext (dict_get data ''width'') (dict_get data ''height'') = Inl e)"
  shows "\<exists>msg. create_decoder ext c ci decoder_id data timestamp =
           Inl [(''timestamp'', timestamp), (''error'', PStr msg)]"
  using assms by (auto simp: create_decoder_def)

text \<open>
  C8. On an H.264 channel whose stream has no decoder yet, data without \<open>width\<close> or
  without \<open>height\<close>, or data for which the decoder's constructor raises, makes
  \<open>image_decode\<close> exactly the sending of error data (the timestamp and an \<open>error\<close> text) to
  the channel's error event followed by \<open>return None\<close>: no record is returned, no decoder
  is created, and on a transport that is ready the error data is emitted.
\<close>

theorem decoder_creation_errors:
  assumes key: "get_client_eio_sid (sio c) sid_arg DATA_NAMESPACE = Inr eio_sid"
    and info: "callbacks_info c event = Some ci"
    and h264: "type ci = H264"
    and none: "decoders c (eio_sid, event) = None"
    and bad: "\<not> dict_has data ''width'' \<or> \<not> dict_has data ''height'' \<or>
         (\<exists>e. new_H264Decoder ext (dict_get data ''width'') (dict_get data ''height'') = Inl e)"
  shows "\<exists>msg.
           image_decode ext c data event sid_arg =
             send_error ext c
               [(''timestamp'', data_timestamp data), (''error'', PStr msg)]
               (error_event ci) sid_arg \<and>
           (\<forall>r c'. image_decode ext c data event sid_arg = Some (r, c') \<longrightarrow>
              (\<forall>v. r \<noteq> Inr (Some v)) \<and> decoders c' = decoders c) \<and>
           (transport_ready (sio c) sid_arg True \<longrightarrow>
              image_decode ext c data event sid_arg =
                Some (Inr None,
                      c\<lparr>sio := emit (sio c) (error_event ci)
                         (PDict [(''timestamp'', data_timestamp data), (''error'', PStr msg)])
                         DATA_NAMESPACE (emit_target (sio c) sid_arg)\<rparr>))"
proof -
  have "\<exists>msg. image_decode ext c data event sid_arg =
          send_error ext c [(''timestamp'', data_timestamp data), (''error'', PStr msg)]
            (error_event ci) sid_arg"
  proof (cases "dict_has data ''frame''")
    case False
    then show ?thesis
      using image_decode_without_frame [OF _ info] by blast
  next
    case True
    from create_decoder_fails [OF h264 none bad] obtain msg where
      "create_decoder ext c ci (eio_sid, event) data (data_timestamp data) =
         Inl [(''timestamp'', data_timestamp data), (''error'', PStr msg)]"
      by blast
    then show ?thesis
      by (auto simp: image_decode_with_frame [OF True key info])
  qed
  then obtain msg where eq: "image_decode ext c data event sid_arg =
          send_error ext c [(''timestamp'', data_timestamp data), (''error'', PStr msg)]
            (error_event ci) sid_arg" ..
  have "(\<forall>v. r \<noteq> Inr (Some v)) \<and> decoders c' = decoders c"
    if "image_decode ext c data event sid_arg = Some (r, c')" for r c'
  proof -
    from that have se: "send_error ext c [(''timestamp'', data_timestamp data), (''error'', PStr msg)]
            (error_event ci) sid_arg = Some (r, c')"
      by (simp add: eq)
    from send_error_rest(5) [OF se] send_error_rest(1) [OF se] show ?thesis by auto
  qed
  moreover have "image_decode ext c data event sid_arg =
                Some (Inr None,
                      c\<lparr>sio := emit (sio c) (error_event ci)
                         (PDict [(''timestamp'', data_timestamp data), (''error'', PStr msg)])
                         DATA_NAMESPACE (emit_target (sio c) sid_arg)\<rparr>)"
    if "transport_ready (sio c) sid_arg True"
    using that by (simp add: eq send_error_ready)
  ultimately show ?thesis using eq by blast
qed

theorem decoder_creation_errors_witness:
  "get_client_eio_sid (sio example_client) None DATA_NAMESPACE = Inr ''c1'' \<and>
   callbacks_info example_client ''video'' = Some \<lparr>type = H264, error_event = DATA_ERROR_EVENT\<rparr> \<and>
   decoders example_client (''c1'', ''video'') = None \<and>
   \<not> dict_has frame_without_width ''width'' \<and>
   dict_has frame_with_bad_size ''width'' \<and> dict_has frame_with_bad_size ''height'' \<and>
   new_H264Decoder example_externals (dict_get frame_with_bad_size ''width'')
     (dict_get frame_with_bad_size ''height'') = Inl (OtherException ''size'') \<and>
   transport_ready (sio example_client) None True \<and>
   (\<exists>msg. image_decode example_externals example_client frame_without_width ''video'' None =
      Some (Inr None, example_client\<lparr>sio := example_sio\<lparr>emitted :=
        [(''data_error'', PDict [(''timestamp'', PInt 3), (''error'', PStr msg)],
          ''/data'', None)]\<rparr>\<rparr>)) \<and>
   (\<exists>msg. image_decode example_externals example_client frame_with_bad_size ''video'' None =
      Some (Inr None, example_client\<lparr>sio := example_sio\<lparr>emitted :=
        [(''data_error'', PDict [(''timestamp'', PInt 3), (''error'', PStr msg)],
          ''/data'', None)]\<rparr>\<rparr>))"
proof -
  have k: "get_client_eio_sid (sio example_client) None DATA_NAMESPACE = Inr ''c1''"
    by (simp add: get_client_eio_sid_def str_opt_def example_defs2)
  have i: "callbacks_info example_client ''video'' =
             Some \<lparr>type = H264, error_event = DATA_ERROR_EVENT\<rparr>"
    by (simp add: example_defs2)
  have h: "type \<lparr>type = H264, error_event = DATA_ERROR_EVENT\<rparr> = H264"
    by simp
  have d: "decoders example_client (''c1'', ''video'') = None"
    by (simp add: example_defs2)
  have w: "\<not> dict_has frame_without_width ''width''"
    by (simp add: dict_has_def frame_without_width_def)
  have s: "dict_has frame_with_bad_size ''width''" "dict_has frame_with_bad_size ''height''"
    by (simp_all add: dict_has_def frame_with_bad_size_def)
  have n: "new_H264Decoder example_externals (dict_get frame_with_bad_size ''width'')
     (dict_get frame_with_bad_size ''height'') = Inl (OtherException ''size'')"
    by (simp add: dict_get_def frame_with_bad_size_def example_externals_def)
  have r: "transport_ready (sio example_client) None True"
    by (simp add: transport_ready_def example_defs2)
  have ts: "data_timestamp frame_without_width = PInt 3" "data_timestamp frame_with_bad_size = PInt 3"
    by (simp_all add: data_timestamp_def dict_has_def dict_get_def frame_without_width_def
        frame_with_bad_size_def)
  have e: "emit (sio example_client) DATA_ERROR_EVENT v DATA_NAMESPACE
             (emit_target (sio example_client) None) =
           example_sio\<lparr>emitted := [(''data_error'', v, ''/data'', None)]\<rparr>" for v
    by (simp add: emit_def emit_target_def example_defs2 DATA_ERROR_EVENT_def DATA_NAMESPACE_def)
  from decoder_creation_errors [OF k i h d, of frame_without_width example_externals] w r
  have a: "\<exists>msg. image_decode example_externals example_client frame_without_width ''video'' None =
      Some (Inr None, example_client\<lparr>sio := example_sio\<lparr>emitted :=
        [(''data_error'', PDict [(''timestamp'', PInt 3), (''error'', PStr msg)],
          ''/data'', None)]\<rparr>\<rparr>)"
    by (auto simp: ts e)
  from decoder_creation_errors [OF k i h d, of frame_with_bad_size example_externals] n r
  have b: "\<exists>msg. image_decode example_externals example_client frame_with_bad_size ''video'' None =
      Some (Inr None, example_client\<lparr>sio := example_sio\<lparr>emitted :=
        [(''data_error'', PDict [(''timestamp'', PInt 3), (''error'', PStr msg)],
          ''/data'', None)]\<rparr>\<rparr>)"
    by (auto simp: ts e)
  from a b k i d w s n r show ?thesis
    by simp
qed

section \<open>Codec errors\<close>

lemma create_encoder_rest:
  "create_encoder ext c encoder_id frame options = Inr c1 \<Longrightarrow>
   recreate_h264_attempts_count c1 = recreate_h264_attempts_count c"
  by (auto simp: create_encoder_def split: if_splits sum.splits)

lemma send_image_encoder_error:
  assumes "get_client_eio_sid (sio c) sid_arg DATA_NAMESPACE = Inr eio_sid"
    and "create_encoder ext c (eio_sid, event) frame options = Inr c1"
    and "encoders c1 (eio_sid, event) = Some enc"
    and "encode_ndarray ext enc frame = (Inl (H264EncoderError m), enc')"
  shows "send_image ext c frame event H264 timestamp metadata sid_arg can_be_dropped wait options =
         (if encoder_get_init_count ext enc' < recreate_h264_attempts_count c1
          then Some (Inr (), c1\<lparr>encoders := (encoders c1)((eio_sid, event) \<mapsto> encoder_init ext enc')\<rparr>)
          else Some (Inl (H264EncoderError m),
                     c1\<lparr>encoders := (encoders c1)((eio_sid, event) \<mapsto> enc')\<rparr>))"
  by (simp add: send_image_H264 [OF assms] encoder_error_def raise_def return_def)

lemma check_timestamp_passed:
  assumes "decoders c decoder_id = Some d"
    and "py_sub timestamp (last_timestamp d) = Inr diff" and "0 \<le> diff"
  shows "check_timestamp ext c ci decoder_id data timestamp sid_arg =
         decode_frame ext
           (c\<lparr>decoders := (decoders c)(decoder_id \<mapsto> d\<lparr>last_timestamp := timestamp\<rparr>)\<rparr>)
           ci decoder_id data timestamp sid_arg"
  using assms by (simp add: check_timestamp_def)

lemma decode_frame_decoder_error:
  assumes "decoders c decoder_id = Some d"
    and "decode_packet_data ext (codec d) (dict_get data ''frame'') = (Inl (H264DecoderError m), cd)"
  shows "decode_frame ext c ci decoder_id data timestamp sid_arg =
         send_error ext
           (c\<lparr>decoders := (decoders c)(decoder_id \<mapsto>
                d\<lparr>codec := (if decoder_get_init_count ext cd < recreate_h264_attempts_count c
                              then decoder_init ext cd else cd)\<rparr>)\<rparr>)
           [(''timestamp'', timestamp),
            (''error'', PStr (''H.264 decoder error: '' @ str ext (H264DecoderError m)))]
           (error_event ci) sid_arg"
  using assms by (simp add: decode_frame_def Let_def)

text \<open>
  C2, as the code has it. When \<open>encode_ndarray\<close> raises \<open>H264EncoderError\<close>: with the
  encoder's init count under \<open>recreate_h264_attempts_count\<close>, \<open>send_image\<close> initialises the
  encoder again and returns normally (the frame is lost, nothing is raised); with the
  count at or over it, the error is raised to the caller. When \<open>decode_packet_data\<close>
  raises \<open>H264DecoderError\<close> (the data carries a frame and passed the timestamp check):
  \<open>image_decode\<close> initialises the decoder again only while its init count is under the
  ceiling, and in both cases it is the sending of the decoder error to the channel's
  error event followed by \<open>return None\<close>; what it can raise is what \<open>send_data\<close> raises,
  never the decoder error.
\<close>

theorem codec_error_recovery:
  "(get_client_eio_sid (sio c) sid_arg DATA_NAMESPACE = Inr eio_sid \<longrightarrow>
    create_encoder ext c (eio_sid, event) frame options = Inr c1 \<longrightarrow>
    encoders c1 (eio_sid, event) = Some enc \<longrightarrow>
    encode_ndarray ext enc frame = (Inl (H264EncoderError m), enc') \<longrightarrow>
      send_image ext c frame event H264 timestamp metadata sid_arg can_be_dropped wait options =
        (if encoder_get_init_count ext enc' < recreate_h264_attempts_count c
         then Some (Inr (), c1\<lparr>encoders := (encoders c1)((eio_sid, event) \<mapsto> encoder_init ext enc')\<rparr>)
         else Some (Inl (H264EncoderError m),
                    c1\<lparr>encoders := (encoders c1)((eio_sid, event) \<mapsto> enc')\<rparr>))) \<and>
   (dict_has data ''frame'' \<longrightarrow>
    get_client_eio_sid (sio c) sid_arg DATA_NAMESPACE = Inr eio_sid \<longrightarrow>
    callbacks_info c event = Some ci \<longrightarrow>
    create_decoder ext c ci (eio_sid, event) data (data_timestamp data) = Inr c2 \<longrightarrow>
    decoders c2 (eio_sid, event) = Some d \<longrightarrow>
    py_sub (data_timestamp data) (last_timestamp d) = Inr diff \<longrightarrow> 0 \<le> diff \<longrightarrow>
    decode_packet_data ext (codec d) (dict_get data ''frame'') = (Inl (H264DecoderError m'), cd) \<longrightarrow>
      image_decode ext c data event sid_arg =
        send_error ext
          (c2\<lparr>decoders := (decoders c2)((eio_sid, event) \<mapsto>
               d\<lparr>last_timestamp := data_timestamp data,
                 codec := (if decoder_get_init_count ext cd < recreate_h264_attempts_count c
                           then decoder_init ext cd else cd)\<rparr>)\<rparr>)
          [(''timestamp'', data_timestamp data),
           (''error'', PStr (''H.264 decoder error: '' @ str ext (H264DecoderError m')))]
          (error_event ci) sid_arg \<and>
      (\<forall>r c'. image_decode ext c data event sid_arg = Some (r, c') \<longrightarrow>
         r = Inr None \<or> (\<exists>x. r = Inl (ValueError x)) \<or> (\<exists>x. r = Inl (ConnectionError x))))"
proof (intro conjI impI)
  assume key: "get_client_eio_sid (sio c) sid_arg DATA_NAMESPACE = Inr eio_sid"
    and cr: "create_encoder ext c (eio_sid, event) frame options = Inr c1"
    and enc: "encoders c1 (eio_sid, event) = Some enc"
    and fails: "encode_ndarray ext enc frame = (Inl (H264EncoderError m), enc')"
  show "send_image ext c frame event H264 timestamp metadata sid_arg can_be_dropped wait options =
        (if encoder_get_init_count ext enc' < recreate_h264_attempts_count c
         then Some (Inr (), c1\<lparr>encoders := (encoders c1)((eio_sid, event) \<mapsto> encoder_init ext enc')\<rparr>)
         else Some (Inl (H264EncoderError m),
                    c1\<lparr>encoders := (encoders c1)((eio_sid, event) \<mapsto> enc')\<rparr>))"
    by (simp add: send_image_encoder_error [OF key cr enc fails] create_encoder_rest [OF cr])
next
  assume frame: "dict_has data ''frame''"
    and key: "get_client_eio_sid (sio c) sid_arg DATA_NAMESPACE = Inr eio_sid"
    and info: "callbacks_info c event = Some ci"
    and cr: "create_decoder ext c ci (eio_sid, event) data (data_timestamp data) = Inr c2"
    and dec: "decoders c2 (eio_sid, event) = Some d"
    and sub: "py_sub (data_timestamp data) (last_timestamp d) = Inr diff" and pos: "0 \<le> diff"
    and fails: "decode_packet_data ext (codec d) (dict_get data ''frame'') =
                  (Inl (H264DecoderError m'), cd)"
  let ?k = "(eio_sid, event)"
  let ?c3 = "c2\<lparr>decoders := (decoders c2)(?k \<mapsto> d\<lparr>last_timestamp := data_timestamp data\<rparr>)\<rparr>"
  let ?err = "[(''timestamp'', data_timestamp data),
               (''error'', PStr (''H.264 decoder error: '' @ str ext (H264DecoderError m')))]"
  have same: "recreate_h264_attempts_count c2 = recreate_h264_attempts_count c"
    using cr by (auto simp: create_decoder_def split: if_splits sum.splits)
  have d3: "decoders ?c3 ?k = Some (d\<lparr>last_timestamp := data_timestamp data\<rparr>)"
    by simp
  have f3: "decode_packet_data ext (codec (d\<lparr>last_timestamp := data_timestamp data\<rparr>))
              (dict_get data ''frame'') = (Inl (H264DecoderError m'), cd)"
    using fails by simp
  show eq: "image_decode ext c data event sid_arg =
        send_error ext
          (c2\<lparr>decoders := (decoders c2)(?k \<mapsto>
               d\<lparr>last_timestamp := data_timestamp data,
                 codec := (if decoder_get_init_count ext cd < recreate_h264_attempts_count c
                           then decoder_init ext cd else cd)\<rparr>)\<rparr>)
          ?err (error_event ci) sid_arg"
    by (simp add: image_decode_with_frame [OF frame key info] cr
        check_timestamp_passed [OF dec sub pos] decode_frame_decoder_error [OF d3 f3] same)
  show "\<forall>r c'. image_decode ext c data event sid_arg = Some (r, c') \<longrightarrow>
         r = Inr None \<or> (\<exists>x. r = Inl (ValueError x)) \<or> (\<exists>x. r = Inl (ConnectionError x))"
    unfolding eq using send_error_rest(5) by blast
qed

lemmas example_defs3 =
  example_defs2 example_encoding_def example_worn_decoding_def empty_frame_def empty_packet_def
  empty_packet_error_def

lemma example_encoder_error_swallowed:
  "send_image example_externals (example_encoding 0) empty_frame ''video'' H264 (Some 7) None None
     True True None = Some (Inr (), example_encoding 1)"
  by (simp add: send_image_defs example_defs3)

lemma example_encoder_error_raised:
  "send_image example_externals (example_encoding 5) empty_frame ''video'' H264 (Some 7) None None
     True True None = Some (Inl (H264EncoderError ''empty frame''), example_encoding 5)"
  by (simp add: send_image_defs example_defs3)

lemma example_decoder_error_reinit:
  "image_decode example_externals example_decoding empty_packet ''video'' None =
   Some (Inr None, example_decoding\<lparr>
     decoders := [(''c1'', ''video'') \<mapsto> \<lparr>last_timestamp = PInt 12, codec = 1\<rparr>],
     sio := example_sio\<lparr>emitted := [(''data_error'', empty_packet_error, ''/data'', None)]\<rparr>\<rparr>)"
  by (simp add: image_decode_defs example_defs3 wait_loop_ready)

lemma example_decoder_error_at_ceiling:
  "image_decode example_externals example_worn_decoding empty_packet ''video'' None =
   Some (Inr None, example_worn_decoding\<lparr>
     decoders := [(''c1'', ''video'') \<mapsto> \<lparr>last_timestamp = PInt 12, codec = 5\<rparr>],
     sio := example_sio\<lparr>emitted := [(''data_error'', empty_packet_error, ''/data'', None)]\<rparr>\<rparr>)"
  by (simp add: image_decode_defs example_defs3 wait_loop_ready)

text \<open>
  C2 as the spec states it fails twice. An encoder error under the ceiling is not
  propagated: \<open>send_image\<close> returns normally. A decoder error at the ceiling is not
  propagated either: \<open>image_decode\<close> emits the error data and returns \<open>None\<close>.
\<close>

theorem codec_error_not_propagated:
  "encode_ndarray example_externals (640, 480, 0) empty_frame =
     (Inl (H264EncoderError ''empty frame''), (640, 480, 0)) \<and>
   encoder_get_init_count example_externals (640, 480, 0) <
     recreate_h264_attempts_count (example_encoding 0) \<and>
   send_image example_externals (example_encoding 0) empty_frame ''video'' H264 (Some 7) None None
     True True None = Some (Inr (), example_encoding 1) \<and>
   decode_packet_data example_externals 5 (PBytes []) = (Inl (H264DecoderError ''no data''), 5) \<and>
   \<not> decoder_get_init_count example_externals 5 <
     recreate_h264_attempts_count example_worn_decoding \<and>
   image_decode example_externals example_worn_decoding empty_packet ''video'' None =
   Some (Inr None, example_worn_decoding\<lparr>
     decoders := [(''c1'', ''video'') \<mapsto> \<lparr>last_timestamp = PInt 12, codec = 5\<rparr>],
     sio := example_sio\<lparr>emitted := [(''data_error'', empty_packet_error, ''/data'', None)]\<rparr>\<rparr>)"
  by (simp add: send_image_defs image_decode_defs example_defs3 wait_loop_ready)

theorem codec_error_recovery_witness:
  "get_client_eio_sid (sio (example_encoding 0)) None DATA_NAMESPACE = Inr ''c1'' \<and>
   create_encoder example_externals (example_encoding 0) (''c1'', ''video'') empty_frame None =
     Inr (example_encoding 0) \<and>
   encoders (example_encoding 0) (''c1'', ''video'') = Some (640, 480, 0) \<and>
   encode_ndarray example_externals (640, 480, 0) empty_frame =
     (Inl (H264EncoderError ''empty frame''), (640, 480, 0)) \<and>
   send_image example_externals (example_encoding 0) empty_frame ''video'' H264 (Some 7) None None
     True True None = Some (Inr (), example_encoding 1) \<and>
   dict_has empty_packet ''frame'' \<and>
   get_client_eio_sid (sio example_worn_decoding) None DATA_NAMESPACE = Inr ''c1'' \<and>
   callbacks_info example_worn_decoding ''video'' =
     Some \<lparr>type = H264, error_event = DATA_ERROR_EVENT\<rparr> \<and>
   create_decoder example_externals example_worn_decoding
     \<lparr>type = H264, error_event = DATA_ERROR_EVENT\<rparr> (''c1'', ''video'') empty_packet
     (data_timestamp empty_packet) = Inr example_worn_decoding \<and>
   decoders example_worn_decoding (''c1'', ''video'') = Some \<lparr>last_timestamp = PInt 10, codec = 5\<rparr> \<and>
   py_sub (data_timestamp empty_packet) (PInt 10) = Inr 2 \<and> (0::int) \<le> 2 \<and>
   decode_packet_data example_externals 5 (dict_get empty_packet ''frame'') =
     (Inl (H264DecoderError ''no data''), 5) \<and>
   image_decode example_externals example_worn_decoding empty_packet ''video'' None =
     send_error example_externals
       (example_worn_decoding\<lparr>decoders :=
          [(''c1'', ''video'') \<mapsto> \<lparr>last_timestamp = PInt 12, codec = 5\<rparr>]\<rparr>)
       [(''timestamp'', PInt 12), (''error'', PStr ''H.264 decoder error: no data'')]
       DATA_ERROR_EVENT None"
proof -
  have k: "get_client_eio_sid (sio (example_encoding 0)) None DATA_NAMESPACE = Inr ''c1''"
    by (simp add: get_client_eio_sid_def str_opt_def example_defs3)
  have e: "encoders (example_encoding 0) (''c1'', ''video'') = Some (640, 480, 0)"
    by (simp add: example_defs3)
  have cr: "create_encoder example_externals (example_encoding 0) (''c1'', ''video'') empty_frame None =
     Inr (example_encoding 0)"
    using e by (rule create_encoder_existing)
  have f: "encode_ndarray example_externals (640, 480, 0) empty_frame =
     (Inl (H264EncoderError ''empty frame''), (640, 480, 0))"
    by (simp add: example_defs3)
  have n: "encoder_get_init_count example_externals (640, 480, 0) = 0"
    "recreate_h264_attempts_count (example_encoding 0) = 5"
    "encoder_init example_externals (640, 480, 0) = (640, 480, 1)"
    by (simp_all add: example_defs3)
  from codec_error_recovery [where c = "example_encoding 0" and sid_arg = None
      and eio_sid = "''c1''" and ext = example_externals and event = "''video''"
      and frame = empty_frame and options = None and ?c1.0 = "example_encoding 0"
      and enc = "(640, 480, 0)" and m = "''empty frame''" and enc' = "(640, 480, 0)"
      and timestamp = "Some 7" and metadata = None and can_be_dropped = True and wait = True,
      THEN conjunct1] k cr e f
  have A: "send_image example_externals (example_encoding 0) empty_frame ''video'' H264 (Some 7)
     None None True True None = Some (Inr (), example_encoding 1)"
    by (simp add: n) (simp add: example_encoding_def)
  have p: "dict_has empty_packet ''frame''"
    by (simp add: dict_has_def empty_packet_def)
  have k2: "get_client_eio_sid (sio example_worn_decoding) None DATA_NAMESPACE = Inr ''c1''"
    by (simp add: get_client_eio_sid_def str_opt_def example_defs3)
  have i: "callbacks_info example_worn_decoding ''video'' =
     Some \<lparr>type = H264, error_event = DATA_ERROR_EVENT\<rparr>"
    by (simp add: example_defs3)
  have d: "decoders example_worn_decoding (''c1'', ''video'') =
     Some \<lparr>last_timestamp = PInt 10, codec = 5\<rparr>"
    by (simp add: example_defs3)
  have cd: "create_decoder example_externals example_worn_decoding
     \<lparr>type = H264, error_event = DATA_ERROR_EVENT\<rparr> (''c1'', ''video'') empty_packet
     (data_timestamp empty_packet) = Inr example_worn_decoding"
    using d by (rule create_decoder_existing)
  have ts: "data_timestamp empty_packet = PInt 12"
    by (simp add: data_timestamp_def dict_has_def dict_get_def empty_packet_def)
  have s: "py_sub (data_timestamp empty_packet) (PInt 10) = Inr 2"
    by (simp add: ts py_sub_def)
  have g: "decode_packet_data example_externals 5 (dict_get empty_packet ''frame'') =
     (Inl (H264DecoderError ''no data''), 5)"
    by (simp add: dict_get_def example_defs3)
  have n2: "decoder_get_init_count example_externals 5 = 5"
    "recreate_h264_attempts_count example_worn_decoding = 5"
    "str example_externals (H264DecoderError ''no data'') = ''no data''"
    by (simp_all add: example_defs3)
  from codec_error_recovery [where c = example_worn_decoding and sid_arg = None
      and eio_sid = "''c1''" and ext = example_externals and event = "''video''"
      and data = empty_packet and ci = "\<lparr>type = H264, error_event = DATA_ERROR_EVENT\<rparr>"
      and ?c2.0 = example_worn_decoding and d = "\<lparr>last_timestamp = PInt 10, codec = 5\<rparr>"
      and diff = 2 and m' = "''no data''" and cd = 5, THEN conjunct2] p k2 i cd d s g
  have B: "image_decode example_externals example_worn_decoding empty_packet ''video'' None =
     send_error example_externals
       (example_worn_decoding\<lparr>decoders :=
          [(''c1'', ''video'') \<mapsto> \<lparr>last_timestamp = PInt 12, codec = 5\<rparr>]\<rparr>)
       [(''timestamp'', PInt 12), (''error'', PStr ''H.264 decoder error: no data'')]
       DATA_ERROR_EVENT None"
    by (simp add: n2 ts) (simp add: example_worn_decoding_def)
  from A B k cr e f p k2 i cd d s g show ?thesis
    by simp
qed

section \<open>\<open>image_decode\<close>: the order of timestamps\<close>

lemma decoded_data_timestamp:
  "\<exists>decoded. decoded_data fr timestamp data = PDict decoded \<and>
     dict_get decoded ''timestamp'' = timestamp"
  by (simp add: decoded_data_def dict_get_def map_of_dict_set Let_def)

lemma decode_frame_returns:
  assumes "decode_frame ext c ci decoder_id data timestamp sid_arg = Some (Inr (Some v), c')"
  shows "\<exists>fr. v = decoded_data fr timestamp data"
proof (cases "decoders c decoder_id")
  case None
  with assms show ?thesis
    by (auto simp: decode_frame_def return_def split: sum.splits dest: send_error_rest(5))
next
  case (Some d0)
  obtain re cd where e: "decode_packet_data ext (codec d0) (dict_get data ''frame'') = (re, cd)"
    by (cases "decode_packet_data ext (codec d0) (dict_get data ''frame'')")
  show ?thesis
  proof (cases re)
    case (Inr fr)
    with assms Some e show ?thesis
      by (auto simp: decode_frame_def return_def)
  next
    case (Inl x)
    show ?thesis
    proof (cases "\<exists>m. x = H264DecoderError m")
      case False
      with assms Some e Inl show ?thesis
        by (cases x) (auto simp: decode_frame_def raise_def)
    next
      case True
      then obtain m where "x = H264DecoderError m" ..
      with assms Some e Inl show ?thesis
        by (auto simp: decode_frame_def Let_def split: if_splits dest!: send_error_rest(5))
    qed
  qed
qed

lemma decode_frame_callbacks:
  assumes "decode_frame ext c ci decoder_id data timestamp sid_arg = Some (r, c')"
  shows "callbacks_info c' = callbacks_info c"
proof (cases "decoders c decoder_id")
  case None
  with assms show ?thesis
    by (auto simp: decode_frame_def return_def split: sum.splits dest: send_error_rest(3))
next
  case (Some d0)
  obtain re cd where e: "decode_packet_data ext (codec d0) (dict_get data ''frame'') = (re, cd)"
    by (cases "decode_packet_data ext (codec d0) (dict_get data ''frame'')")
  show ?thesis
  proof (cases re)
    case (Inr fr)
    with assms Some e show ?thesis
      by (auto simp: decode_frame_def return_def)
  next
    case (Inl x)
    show ?thesis
    proof (cases "\<exists>m. x = H264DecoderError m")
      case False
      with assms Some e Inl show ?thesis
        by (cases x) (auto simp: decode_frame_def raise_def)
    next
      case True
      then obtain m where "x = H264DecoderError m" ..
      with assms Some e Inl show ?thesis
        by (auto simp: decode_frame_def Let_def split: if_splits dest!: send_error_rest(3))
    qed
  qed
qed

lemma check_timestamp_callbacks:
  assumes "check_timestamp ext c ci decoder_id data timestamp sid_arg = Some (r, c')"
  shows "callbacks_info c' = callbacks_info c"
  using assms
  by (auto simp: check_timestamp_def raise_def
      split: option.splits sum.splits if_splits
      dest: send_error_rest(3) decode_frame_callbacks)

lemma check_timestamp_returns:
  assumes "check_timestamp ext c ci decoder_id data timestamp sid_arg = Some (Inr (Some v), c')"
  shows "\<exists>fr. v = decoded_data fr timestamp data"
    and "decoders c decoder_id = Some d \<Longrightarrow>
         (\<exists>diff\<ge>0. py_sub timestamp (last_timestamp d) = Inr diff) \<and>
         (\<exists>d'. decoders c' decoder_id = Some d' \<and> last_timestamp d' = timestamp)"
proof -
  show "\<exists>fr. v = decoded_data fr timestamp data"
    using assms
    by (auto simp: check_timestamp_def raise_def
        split: option.splits sum.splits if_splits
        dest: send_error_rest(5) decode_frame_returns)
  assume d: "decoders c decoder_id = Some d"
  with assms obtain diff where sub: "py_sub timestamp (last_timestamp d) = Inr diff"
    and pos: "0 \<le> diff"
    by (auto simp: check_timestamp_def raise_def split: sum.splits if_splits
        dest: send_error_rest(5))
  from assms have "decode_frame ext
           (c\<lparr>decoders := (decoders c)(decoder_id \<mapsto> d\<lparr>last_timestamp := timestamp\<rparr>)\<rparr>)
           ci decoder_id data timestamp sid_arg = Some (Inr (Some v), c')"
    by (simp add: check_timestamp_passed [OF d sub pos])
  from decode_frame_decoder [OF this, of decoder_id] sub pos
  show "(\<exists>diff\<ge>0. py_sub timestamp (last_timestamp d) = Inr diff) \<and>
         (\<exists>d'. decoders c' decoder_id = Some d' \<and> last_timestamp d' = timestamp)"
    by auto
qed

lemma py_sub_refl: "py_sub a b = Inr diff \<Longrightarrow> py_sub a a = Inr 0"
  by (auto simp: py_sub_def split: option.splits)

lemma check_timestamp_monotone:
  assumes "check_timestamp ext c ci decoder_id data timestamp sid_arg = Some (r, c')"
    and "decoders c k = Some d"
  shows "\<exists>d'. decoders c' k = Some d' \<and>
           (last_timestamp d' = last_timestamp d \<or>
            (\<exists>diff\<ge>0. py_sub (last_timestamp d') (last_timestamp d) = Inr diff))"
proof (cases "decoders c decoder_id")
  case None
  with assms have "decode_frame ext c ci decoder_id data timestamp sid_arg = Some (r, c')"
    by (simp add: check_timestamp_def)
  from decode_frame_decoder [OF this assms(2)] show ?thesis by auto
next
  case (Some d0)
  show ?thesis
  proof (cases "py_sub timestamp (last_timestamp d0)")
    case (Inl e)
    with assms Some show ?thesis
      by (auto simp: check_timestamp_def raise_def)
  next
    case (Inr diff)
    show ?thesis
    proof (cases "diff < 0")
      case True
      with assms Some Inr show ?thesis
        by (auto simp: check_timestamp_def dest: send_error_rest(1))
    next
      case False
      let ?c = "c\<lparr>decoders := (decoders c)(decoder_id \<mapsto> d0\<lparr>last_timestamp := timestamp\<rparr>)\<rparr>"
      from False have pos: "0 \<le> diff" by simp
      from assms have df: "decode_frame ext ?c ci decoder_id data timestamp sid_arg = Some (r, c')"
        by (simp add: check_timestamp_passed [OF Some Inr pos])
      show ?thesis
      proof (cases "k = decoder_id")
        case True
        with assms(2) Some have "d0 = d" by simp
        have "decoders ?c k = Some (d0\<lparr>last_timestamp := timestamp\<rparr>)"
          using True by simp
        from decode_frame_decoder [OF df this] \<open>d0 = d\<close> Inr pos show ?thesis
          by auto
      next
        case False
        then have "decoders ?c k = Some d"
          using assms(2) by simp
        from decode_frame_decoder [OF df this] show ?thesis by auto
      qed
    qed
  qed
qed

lemma create_decoder_keeps:
  assumes "create_decoder ext c ci decoder_id data timestamp = Inr c1"
  shows "callbacks_info c1 = callbacks_info c"
    and "decoders c k = Some d \<Longrightarrow> decoders c1 k = Some d"
    and "type ci = H264 \<Longrightarrow> decoders c1 decoder_id \<noteq> None"
  using assms
  by (auto simp: create_decoder_def split: if_splits sum.splits)

lemma image_decode_cases:
  assumes "image_decode ext c data event sid_arg = Some (r, c')"
  obtains (raised) e where "r = Inl e" and "c' = c"
  | (reported) ci error_data where "callbacks_info c event = Some ci"
      and "send_error ext c error_data (error_event ci) sid_arg = Some (r, c')"
  | (checked) eio_sid ci c1 where "dict_has data ''frame''"
      and "get_client_eio_sid (sio c) sid_arg DATA_NAMESPACE = Inr eio_sid"
      and "callbacks_info c event = Some ci"
      and "create_decoder ext c ci (eio_sid, event) data (data_timestamp data) = Inr c1"
      and "check_timestamp ext c1 ci (eio_sid, event) data (data_timestamp data) sid_arg =
             Some (r, c')"
proof (cases "dict_has data ''frame''")
  case False
  with assms show ?thesis
    by (auto simp: image_decode_def Let_def raise_def split: option.splits
        intro: raised reported)
next
  case True
  show ?thesis
  proof (cases "get_client_eio_sid (sio c) sid_arg DATA_NAMESPACE")
    case (Inl e)
    with assms True show ?thesis
      by (auto simp: image_decode_def Let_def raise_def intro: raised)
  next
    case (Inr eio_sid)
    show ?thesis
    proof (cases "callbacks_info c event")
      case None
      with assms True Inr show ?thesis
        by (auto simp: image_decode_def Let_def raise_def intro: raised)
    next
      case (Some ci)
      note eq = image_decode_with_frame [OF True Inr Some, of ext]
      show ?thesis
      proof (cases "create_decoder ext c ci (eio_sid, event) data (data_timestamp data)")
        case (Inl error_data)
        with assms eq Some show ?thesis
          by (auto intro: reported)
      next
        case c1: (Inr c1)
        with assms eq True Inr Some show ?thesis
          by (auto intro: checked)
      qed
    qed
  qed
qed

lemma image_decode_callbacks:
  assumes "image_decode ext c data event sid_arg = Some (r, c')"
  shows "callbacks_info c' = callbacks_info c"
  using assms
proof (cases rule: image_decode_cases)
  case (raised e)
  then show ?thesis by simp
next
  case (reported ci error_data)
  then show ?thesis by (auto dest: send_error_rest(3))
next
  case (checked eio_sid ci c1)
  from check_timestamp_callbacks [OF checked(5)] create_decoder_keeps(1) [OF checked(4)]
  show ?thesis by simp
qed

lemma image_decode_monotone:
  assumes "image_decode ext c data event sid_arg = Some (r, c')"
    and "decoders c k = Some d"
  shows "\<exists>d'. decoders c' k = Some d' \<and>
           (last_timestamp d' = last_timestamp d \<or>
            (\<exists>diff\<ge>0. py_sub (last_timestamp d') (last_timestamp d) = Inr diff))"
  using assms(1)
proof (cases rule: image_decode_cases)
  case (raised e)
  with assms(2) show ?thesis by simp
next
  case (reported ci error_data)
  with assms(2) show ?thesis by (auto dest: send_error_rest(1))
next
  case (checked eio_sid ci c1)
  from create_decoder_keeps(2) [OF checked(4) assms(2)] have "decoders c1 k = Some d" .
  from check_timestamp_monotone [OF checked(5) this] show ?thesis .
qed

lemma image_decode_returns:
  assumes "image_decode ext c data event sid_arg = Some (Inr (Some v), c')"
  obtains eio_sid ci decoded where
    "get_client_eio_sid (sio c) sid_arg DATA_NAMESPACE = Inr eio_sid"
    and "callbacks_info c event = Some ci"
    and "v = PDict decoded" and "dict_get decoded ''timestamp'' = data_timestamp data"
    and "type ci = H264 \<Longrightarrow>
         \<exists>d' n. decoders c' (eio_sid, event) = Some d' \<and> last_timestamp d' = data_timestamp data \<and>
           py_int (data_timestamp data) = Some n"
    and "\<And>d. type ci = H264 \<Longrightarrow> decoders c (eio_sid, event) = Some d \<Longrightarrow>
         \<exists>diff\<ge>0. py_sub (data_timestamp data) (last_timestamp d) = Inr diff"
  using assms
proof (cases rule: image_decode_cases)
  case (raised e)
  then show ?thesis by simp
next
  case (reported ci error_data)
  then show ?thesis by (auto dest: send_error_rest(5))
next
  case (checked eio_sid ci c1)
  from check_timestamp_returns(1) [OF checked(5)] decoded_data_timestamp
  obtain decoded where v: "v = PDict decoded"
    and ts: "dict_get decoded ''timestamp'' = data_timestamp data"
    by metis
  have after: "\<exists>d' n. decoders c' (eio_sid, event) = Some d' \<and>
                 last_timestamp d' = data_timestamp data \<and> py_int (data_timestamp data) = Some n"
    if "type ci = H264"
  proof -
    from create_decoder_keeps(3) [OF checked(4) that]
    obtain d1 where "decoders c1 (eio_sid, event) = Some d1" by auto
    from check_timestamp_returns(2) [OF checked(5) this] show ?thesis
      by (auto simp: py_sub_def split: option.splits)
  qed
  have before: "\<exists>diff\<ge>0. py_sub (data_timestamp data) (last_timestamp d) = Inr diff"
    if "type ci = H264" and "decoders c (eio_sid, event) = Some d" for d
  proof -
    from create_decoder_keeps(2) [OF checked(4) that(2)]
    have "decoders c1 (eio_sid, event) = Some d" .
    from check_timestamp_returns(2) [OF checked(5) this] show ?thesis by simp
  qed
  from that [OF checked(2) checked(3) v ts after before] show ?thesis by blast
qed

lemma py_sub_Inr:
  "py_sub a b = Inr diff \<longleftrightarrow> (\<exists>x y. py_int a = Some x \<and> py_int b = Some y \<and> diff = x - y)"
  by (auto simp: py_sub_def split: option.splits)

lemma returned_timestamps_step:
  assumes "image_decode ext c data event sid_arg = Some (r, c')"
  shows "returned_timestamps ext k c ((data, event, sid_arg) # calls) =
         returned_timestamps ext k c' calls \<or>
         (\<exists>decoded. r = Inr (Some (PDict decoded)) \<and>
            get_client_eio_sid (sio c) sid_arg DATA_NAMESPACE = Inr (fst k) \<and> event = snd k \<and>
            returned_timestamps ext k c ((data, event, sid_arg) # calls) =
              dict_get decoded ''timestamp'' # returned_timestamps ext k c' calls)"
  using assms by (auto split: sum.splits option.splits pyval.splits)

lemma returned_timestamp_accepted:
  assumes call: "image_decode ext c data event sid_arg = Some (Inr (Some (PDict decoded)), c')"
    and key: "get_client_eio_sid (sio c) sid_arg DATA_NAMESPACE = Inr (fst k)"
    and ev: "event = snd k"
    and info: "callbacks_info c (snd k) = Some ci" and h264: "type ci = H264"
  shows "\<exists>d' n. decoders c' k = Some d' \<and> last_timestamp d' = dict_get decoded ''timestamp'' \<and>
           py_int (dict_get decoded ''timestamp'') = Some n"
    and "decoders c k = Some d \<Longrightarrow>
         \<exists>diff\<ge>0. py_sub (dict_get decoded ''timestamp'') (last_timestamp d) = Inr diff"
proof -
  from call obtain eio_sid ci' decoded' where
    k': "get_client_eio_sid (sio c) sid_arg DATA_NAMESPACE = Inr eio_sid"
    and i': "callbacks_info c event = Some ci'"
    and v: "PDict decoded = PDict decoded'"
    and ts: "dict_get decoded' ''timestamp'' = data_timestamp data"
    and after: "type ci' = H264 \<Longrightarrow>
         \<exists>d' n. decoders c' (eio_sid, event) = Some d' \<and> last_timestamp d' = data_timestamp data \<and>
           py_int (data_timestamp data) = Some n"
    and before: "\<And>d. type ci' = H264 \<Longrightarrow> decoders c (eio_sid, event) = Some d \<Longrightarrow>
         \<exists>diff\<ge>0. py_sub (data_timestamp data) (last_timestamp d) = Inr diff"
    by (rule image_decode_returns) blast
  from k' key ev have k: "(eio_sid, event) = k" by (cases k) simp
  from i' info ev have ci: "ci' = ci" by simp
  from after h264 ci k v ts
  show "\<exists>d' n. decoders c' k = Some d' \<and> last_timestamp d' = dict_get decoded ''timestamp'' \<and>
           py_int (dict_get decoded ''timestamp'') = Some n"
    by auto
  assume "decoders c k = Some d"
  with before [of d] h264 ci k v ts
  show "\<exists>diff\<ge>0. py_sub (dict_get decoded ''timestamp'') (last_timestamp d) = Inr diff"
    by auto
qed

lemma returned_timestamps_bound:
  assumes "callbacks_info c (snd k) = Some ci" and "type ci = H264"
    and "decoders c k = Some d" and "py_int (last_timestamp d) = Some l"
  shows "\<forall>y\<in>set (returned_timestamps ext k c calls). \<exists>n. py_int y = Some n \<and> l \<le> n"
  using assms
proof (induction calls arbitrary: c d l)
  case Nil
  then show ?case by simp
next
  case (Cons call calls)
  obtain data event sid_arg where call: "call = (data, event, sid_arg)"
    by (cases call)
  show ?case
  proof (cases "image_decode ext c data event sid_arg")
    case None
    then show ?thesis by (simp add: call)
  next
    case (Some p)
    obtain r c' where p: "p = (r, c')" by (cases p)
    note run = Some [unfolded p]
    from image_decode_monotone [OF run Cons.prems(3)] Cons.prems(4)
    obtain d' l' where d': "decoders c' k = Some d'"
      and l': "py_int (last_timestamp d') = Some l'" and le: "l \<le> l'"
      by (auto simp: py_sub_Inr)
    have info': "callbacks_info c' (snd k) = Some ci"
      using image_decode_callbacks [OF run] Cons.prems(1) by simp
    from Cons.IH [OF info' Cons.prems(2) d' l'] le
    have rest: "\<forall>y\<in>set (returned_timestamps ext k c' calls). \<exists>n. py_int y = Some n \<and> l \<le> n"
      by fastforce
    from returned_timestamps_step [OF run, of k calls] show ?thesis
    proof
      assume "returned_timestamps ext k c ((data, event, sid_arg) # calls) =
              returned_timestamps ext k c' calls"
      with rest show ?thesis by (simp add: call)
    next
      assume "\<exists>decoded. r = Inr (Some (PDict decoded)) \<and>
            get_client_eio_sid (sio c) sid_arg DATA_NAMESPACE = Inr (fst k) \<and> event = snd k \<and>
            returned_timestamps ext k c ((data, event, sid_arg) # calls) =
              dict_get decoded ''timestamp'' # returned_timestamps ext k c' calls"
      then obtain decoded where r: "r = Inr (Some (PDict decoded))"
        and key: "get_client_eio_sid (sio c) sid_arg DATA_NAMESPACE = Inr (fst k)"
        and ev: "event = snd k"
        and eq: "returned_timestamps ext k c ((data, event, sid_arg) # calls) =
              dict_get decoded ''timestamp'' # returned_timestamps ext k c' calls"
        by blast
      from returned_timestamp_accepted(2) [OF run [unfolded r] key ev Cons.prems(1,2,3)]
        Cons.prems(4)
      have "\<exists>n. py_int (dict_get decoded ''timestamp'') = Some n \<and> l \<le> n"
        by (auto simp: py_sub_Inr)
      with rest eq show ?thesis by (simp add: call)
    qed
  qed
qed

lemma h264_timestamps_sorted:
  assumes "callbacks_info c (snd k) = Some ci" and "type ci = H264"
  shows "sorted_wrt timestamp_le (returned_timestamps ext k c calls)"
  using assms
proof (induction calls arbitrary: c)
  case Nil
  then show ?case by simp
next
  case (Cons call calls)
  obtain data event sid_arg where call: "call = (data, event, sid_arg)"
    by (cases call)
  show ?case
  proof (cases "image_decode ext c data event sid_arg")
    case None
    then show ?thesis by (simp add: call)
  next
    case (Some p)
    obtain r c' where p: "p = (r, c')" by (cases p)
    note run = Some [unfolded p]
    have info': "callbacks_info c' (snd k) = Some ci"
      using image_decode_callbacks [OF run] Cons.prems(1) by simp
    note rest = Cons.IH [OF info' Cons.prems(2)]
    from returned_timestamps_step [OF run, of k calls] show ?thesis
    proof
      assume "returned_timestamps ext k c ((data, event, sid_arg) # calls) =
              returned_timestamps ext k c' calls"
      with rest show ?thesis by (simp add: call)
    next
      assume "\<exists>decoded. r = Inr (Some (PDict decoded)) \<and>
            get_client_eio_sid (sio c) sid_arg DATA_NAMESPACE = Inr (fst k) \<and> event = snd k \<and>
            returned_timestamps ext k c ((data, event, sid_arg) # calls) =
              dict_get decoded ''timestamp'' # returned_timestamps ext k c' calls"
      then obtain decoded where r: "r = Inr (Some (PDict decoded))"
        and key: "get_client_eio_sid (sio c) sid_arg DATA_NAMESPACE = Inr (fst k)"
        and ev: "event = snd k"
        and eq: "returned_timestamps ext k c ((data, event, sid_arg) # calls) =
              dict_get decoded ''timestamp'' # returned_timestamps ext k c' calls"
        by blast
      let ?ts = "dict_get decoded ''timestamp''"
      from returned_timestamp_accepted(1) [OF run [unfolded r] key ev Cons.prems]
      obtain d' t where d': "decoders c' k = Some d'" and last: "last_timestamp d' = ?ts"
        and t: "py_int ?ts = Some t"
        by blast
      from returned_timestamps_bound [OF info' Cons.prems(2) d', of t ext calls] last t
      have "\<forall>y\<in>set (returned_timestamps ext k c' calls). timestamp_le ?ts y"
        by (auto simp: timestamp_le_def)
      with rest eq show ?thesis by (simp add: call)
    qed
  qed
qed

lemma example_video_calls:
  "returned_timestamps example_externals (''c1'', ''video'') example_client video_calls =
     [PInt 5, PInt 9]"
  by (simp add: video_calls_def image_decode_defs example_defs2 wait_loop_ready)

lemma decode_frame_no_decoder:
  assumes "decode_frame ext c ci decoder_id data timestamp sid_arg = Some (r, c')"
    and "decoders c k = None"
  shows "decoders c' k = None"
proof (cases "decoders c decoder_id")
  case None
  with assms show ?thesis
    by (auto simp: decode_frame_def return_def split: sum.splits dest: send_error_rest(1))
next
  case (Some d0)
  with assms(2) have ne: "decoder_id \<noteq> k" by auto
  obtain re cd where e: "decode_packet_data ext (codec d0) (dict_get data ''frame'') = (re, cd)"
    by (cases "decode_packet_data ext (codec d0) (dict_get data ''frame'')")
  show ?thesis
  proof (cases re)
    case (Inr fr)
    with assms Some e ne show ?thesis
      by (auto simp: decode_frame_def return_def)
  next
    case (Inl x)
    show ?thesis
    proof (cases "\<exists>m. x = H264DecoderError m")
      case False
      with assms Some e Inl ne show ?thesis
        by (cases x) (auto simp: decode_frame_def raise_def)
    next
      case True
      then obtain m where "x = H264DecoderError m" ..
      with assms Some e Inl ne show ?thesis
        by (auto simp: decode_frame_def Let_def split: if_splits dest!: send_error_rest(1))
    qed
  qed
qed

lemma check_timestamp_no_decoder:
  assumes "check_timestamp ext c ci decoder_id data timestamp sid_arg = Some (r, c')"
    and "decoders c k = None"
  shows "decoders c' k = None"
proof (cases "decoders c decoder_id")
  case None
  with assms have "decode_frame ext c ci decoder_id data timestamp sid_arg = Some (r, c')"
    by (simp add: check_timestamp_def)
  from decode_frame_no_decoder [OF this assms(2)] show ?thesis .
next
  case (Some d0)
  with assms(2) have ne: "decoder_id \<noteq> k" by auto
  show ?thesis
  proof (cases "py_sub timestamp (last_timestamp d0)")
    case (Inl e)
    with assms Some show ?thesis
      by (auto simp: check_timestamp_def raise_def)
  next
    case (Inr diff)
    show ?thesis
    proof (cases "diff < 0")
      case True
      with assms Some Inr show ?thesis
        by (auto simp: check_timestamp_def dest: send_error_rest(1))
    next
      case False
      let ?c = "c\<lparr>decoders := (decoders c)(decoder_id \<mapsto> d0\<lparr>last_timestamp := timestamp\<rparr>)\<rparr>"
      from False have pos: "0 \<le> diff" by simp
      from assms have df: "decode_frame ext ?c ci decoder_id data timestamp sid_arg = Some (r, c')"
        by (simp add: check_timestamp_passed [OF Some Inr pos])
      have "decoders ?c k = None"
        using ne assms(2) by simp
      from decode_frame_no_decoder [OF df this] show ?thesis .
    qed
  qed
qed

lemma image_decode_no_decoder:
  assumes run: "image_decode ext c data event sid_arg = Some (r, c')"
    and none: "decoders c k = None"
    and info: "callbacks_info c (snd k) = Some ci" and jpeg: "type ci \<noteq> H264"
  shows "decoders c' k = None"
  using run
proof (cases rule: image_decode_cases)
  case (raised e)
  with none show ?thesis by simp
next
  case (reported ci' error_data)
  with none show ?thesis by (auto dest: send_error_rest(1))
next
  case (checked eio_sid ci' c1)
  have "decoders c1 k = None"
  proof (cases "(eio_sid, event) = k")
    case True
    then have "event = snd k" by auto
    with checked(3) info have "ci' = ci" by simp
    with checked(4) jpeg none show ?thesis
      by (auto simp: create_decoder_def)
  next
    case False
    with checked(4) none show ?thesis
      by (auto simp: create_decoder_def split: if_splits sum.splits)
  qed
  from check_timestamp_no_decoder [OF checked(5) this] show ?thesis .
qed

lemma image_decode_jpeg:
  assumes info: "callbacks_info c event = Some ci" and jpeg: "type ci \<noteq> H264"
    and key: "get_client_eio_sid (sio c) sid_arg DATA_NAMESPACE = Inr eio_sid"
    and none: "decoders c (eio_sid, event) = None"
    and frame: "dict_has data ''frame''"
    and ok: "imdecode ext (dict_get data ''frame'') = Inr fr"
  shows "image_decode ext c data event sid_arg =
         Some (Inr (Some (decoded_data fr (data_timestamp data) data)), c)"
  using jpeg none ok
  by (simp add: image_decode_with_frame [OF frame key info] create_decoder_def
      check_timestamp_def decode_frame_def return_def)

lemma returned_timestamps_jpeg:
  assumes info: "callbacks_info c (snd k) = Some ci" and jpeg: "type ci \<noteq> H264"
    and none: "decoders c k = None"
    and calls: "\<forall>(data, event, sid_arg)\<in>set calls.
                  event = snd k \<and>
                  get_client_eio_sid (sio c) sid_arg DATA_NAMESPACE = Inr (fst k) \<and>
                  dict_has data ''frame'' \<and>
                  (\<exists>fr. imdecode ext (dict_get data ''frame'') = Inr fr)"
  shows "returned_timestamps ext k c calls = map (\<lambda>call. data_timestamp (fst call)) calls"
  using calls
proof (induction calls)
  case Nil
  then show ?case by simp
next
  case (Cons call calls)
  obtain data event sid_arg where call: "call = (data, event, sid_arg)"
    by (cases call)
  from Cons.prems call obtain fr where ev: "event = snd k"
    and key: "get_client_eio_sid (sio c) sid_arg DATA_NAMESPACE = Inr (fst k)"
    and frame: "dict_has data ''frame''"
    and ok: "imdecode ext (dict_get data ''frame'') = Inr fr"
    by auto
  have none': "decoders c (fst k, event) = None"
    using none ev by simp
  have info': "callbacks_info c event = Some ci"
    using info ev by simp
  note run = image_decode_jpeg [OF info' jpeg key none' frame ok]
  obtain decoded where d: "decoded_data fr (data_timestamp data) data = PDict decoded"
    and ts: "dict_get decoded ''timestamp'' = data_timestamp data"
    using decoded_data_timestamp by blast
  from Cons.IH Cons.prems
  have "returned_timestamps ext k c calls =
        map (\<lambda>call. data_timestamp (fst call)) calls"
    by simp
  then show ?case
    using run d ts key unfolding call ev by simp
qed

text \<open>
  C3, as the code has it. Take any sequence of \<open>image_decode\<close> calls, on any events and
  connections, and a stream (connection and event). On an H.264 channel the timestamps of
  the records returned for that stream are integers and never decrease: a frame whose
  timestamp is lower than the last accepted one is not returned. On a JPEG channel no
  call ever creates a decoder for the stream, and while there is none no timestamp is
  compared: when every call is for the stream and carries a frame that OpenCV decodes,
  the returned timestamps are those of the calls, in their order, whatever they are.
\<close>

theorem timestamp_order_by_channel_type:
  "(callbacks_info c (snd k) = Some ci \<longrightarrow> type ci = H264 \<longrightarrow>
      sorted_wrt timestamp_le (returned_timestamps ext k c calls)) \<and>
   (callbacks_info c (snd k) = Some ci \<longrightarrow> type ci = JPEG \<longrightarrow> decoders c k = None \<longrightarrow>
      (\<forall>data event sid_arg r c'.
         image_decode ext c data event sid_arg = Some (r, c') \<longrightarrow> decoders c' k = None) \<and>
      ((\<forall>(data, event, sid_arg)\<in>set calls.
           event = snd k \<and>
           get_client_eio_sid (sio c) sid_arg DATA_NAMESPACE = Inr (fst k) \<and>
           dict_has data ''frame'' \<and>
           (\<exists>fr. imdecode ext (dict_get data ''frame'') = Inr fr)) \<longrightarrow>
       returned_timestamps ext k c calls = map (\<lambda>call. data_timestamp (fst call)) calls))"
proof (intro conjI impI allI)
  assume "callbacks_info c (snd k) = Some ci" and "type ci = H264"
  then show "sorted_wrt timestamp_le (returned_timestamps ext k c calls)"
    by (rule h264_timestamps_sorted)
next
  fix data event sid_arg r c'
  assume info: "callbacks_info c (snd k) = Some ci" and "type ci = JPEG"
    and none: "decoders c k = None"
    and run: "image_decode ext c data event sid_arg = Some (r, c')"
  from \<open>type ci = JPEG\<close> have "type ci \<noteq> H264" by simp
  with run none info show "decoders c' k = None"
    by (rule image_decode_no_decoder)
next
  assume info: "callbacks_info c (snd k) = Some ci" and "type ci = JPEG"
    and none: "decoders c k = None"
    and calls: "\<forall>(data, event, sid_arg)\<in>set calls.
           event = snd k \<and>
           get_client_eio_sid (sio c) sid_arg DATA_NAMESPACE = Inr (fst k) \<and>
           dict_has data ''frame'' \<and>
           (\<exists>fr. imdecode ext (dict_get data ''frame'') = Inr fr)"
  from \<open>type ci = JPEG\<close> have "type ci \<noteq> H264" by simp
  with info show "returned_timestamps ext k c calls =
                  map (\<lambda>call. data_timestamp (fst call)) calls"
    using none calls by (rule returned_timestamps_jpeg)
qed

text \<open>
  C3 as the spec states it fails on a JPEG channel: no decoder exists for its stream, so
  no timestamp is compared, and a frame with timestamp 3 is decoded and returned after a
  frame with timestamp 5.
\<close>

theorem jpeg_timestamps_unordered:
  "callbacks_info example_client ''photo'' = Some \<lparr>type = JPEG, error_event = DATA_ERROR_EVENT\<rparr> \<and>
   returned_timestamps example_externals (''c1'', ''photo'') example_client photo_calls =
     [PInt 5, PInt 3] \<and>
   \<not> sorted_wrt timestamp_le [PInt 5, PInt 3]"
  by (simp add: photo_calls_def image_decode_defs example_defs2 timestamp_le_def)

theorem timestamp_order_by_channel_type_witness:
  "callbacks_info example_client (snd (''c1'', ''video'')) =
     Some \<lparr>type = H264, error_event = DATA_ERROR_EVENT\<rparr> \<and>
   returned_timestamps example_externals (''c1'', ''video'') example_client video_calls =
     [PInt 5, PInt 9] \<and>
   sorted_wrt timestamp_le
     (returned_timestamps example_externals (''c1'', ''video'') example_client video_calls) \<and>
   callbacks_info example_client (snd (''c1'', ''photo'')) =
     Some \<lparr>type = JPEG, error_event = DATA_ERROR_EVENT\<rparr> \<and>
   decoders example_client (''c1'', ''photo'') = None \<and>
   get_client_eio_sid (sio example_client) None DATA_NAMESPACE = Inr ''c1'' \<and>
   imdecode example_externals (PBytes ''x'') = Inr (PArray (NDArray [1, 1, 3] [0, 0, 0])) \<and>
   imdecode example_externals (PBytes ''y'') = Inr (PArray (NDArray [1, 1, 3] [0, 0, 0])) \<and>
   map (\<lambda>call. data_timestamp (fst call)) photo_calls = [PInt 5, PInt 3] \<and>
   returned_timestamps example_externals (''c1'', ''photo'') example_client photo_calls =
     map (\<lambda>call. data_timestamp (fst call)) photo_calls"
proof -
  have i: "callbacks_info example_client (snd (''c1'', ''video'')) =
     Some \<lparr>type = H264, error_event = DATA_ERROR_EVENT\<rparr>"
    by (simp add: example_defs2)
  have h: "type \<lparr>type = H264, error_event = DATA_ERROR_EVENT\<rparr> = H264"
    by simp
  have j: "callbacks_info example_client (snd (''c1'', ''photo'')) =
     Some \<lparr>type = JPEG, error_event = DATA_ERROR_EVENT\<rparr>"
    by (simp add: example_defs2)
  have t: "type \<lparr>type = JPEG, error_event = DATA_ERROR_EVENT\<rparr> = JPEG"
    by simp
  have n: "decoders example_client (''c1'', ''photo'') = None"
    by (simp add: example_defs2)
  have k: "get_client_eio_sid (sio example_client) None DATA_NAMESPACE = Inr ''c1''"
    by (simp add: get_client_eio_sid_def str_opt_def example_defs2)
  have m: "imdecode example_externals (PBytes ''x'') = Inr (PArray (NDArray [1, 1, 3] [0, 0, 0]))"
    "imdecode example_externals (PBytes ''y'') = Inr (PArray (NDArray [1, 1, 3] [0, 0, 0]))"
    by (simp_all add: example_externals_def)
  have p: "\<forall>(data, event, sid_arg)\<in>set photo_calls.
           event = snd (''c1'', ''photo'') \<and>
           get_client_eio_sid (sio example_client) sid_arg DATA_NAMESPACE =
             Inr (fst (''c1'', ''photo'')) \<and>
           dict_has data ''frame'' \<and>
           (\<exists>fr. imdecode example_externals (dict_get data ''frame'') = Inr fr)"
    using k m by (simp add: photo_calls_def dict_has_def dict_get_def)
  have ts: "map (\<lambda>call. data_timestamp (fst call)) photo_calls = [PInt 5, PInt 3]"
    by (simp add: photo_calls_def data_timestamp_def dict_has_def dict_get_def)
  note video = timestamp_order_by_channel_type [of example_client "(''c1'', ''video'')"
      "\<lparr>type = H264, error_event = DATA_ERROR_EVENT\<rparr>" example_externals video_calls,
      THEN conjunct1, rule_format, OF i h]
  note photo = timestamp_order_by_channel_type [of example_client "(''c1'', ''photo'')"
      "\<lparr>type = JPEG, error_event = DATA_ERROR_EVENT\<rparr>" example_externals photo_calls,
      THEN conjunct2, rule_format, OF j t n, THEN conjunct2, THEN mp, OF p]
  from video photo i j n k m ts example_video_calls show ?thesis
    by simp
qed

section \<open>The LZ4 round trip\<close>

text \<open>
  C9. \<open>send_data\<close> on a \<open>JSON_LZ4\<close> channel emits \<open>compress(bytes(dumps(data)))\<close>, and
  \<open>data_lz4_decode\<close> returns \<open>loads(decompress(...))\<close> of what it receives. So where the two
  libraries undo each other on the data (decompressing the compressed text gives the text,
  and parsing the dumped map gives the map), what the receiver returns from what the
  sender emitted is the original map.
\<close>

theorem lz4_round_trip:
  assumes "dumps ext data = Inr s" and "compress ext s = Inr z"
    and "decompress ext z = Inr s" and "loads ext s = Inr (PDict data)"
  shows "encode_payload ext JSON_LZ4 data = Inr (PBytes z) \<and>
         (transport_ready (sio c) sid_arg wait \<longrightarrow>
            send_data ext c data event JSON_LZ4 sid_arg False wait =
              Some (Inr (), c\<lparr>sio := emit (sio c) event (PBytes z) DATA_NAMESPACE
                                         (emit_target (sio c) sid_arg)\<rparr>)) \<and>
         data_lz4_decode ext c' z event' sid_arg' = Some (Inr (Some (PDict data)), c')"
proof (intro conjI impI)
  show p: "encode_payload ext JSON_LZ4 data = Inr (PBytes z)"
    using assms by (simp add: encode_payload_def lz4_payload_def)
  show "data_lz4_decode ext c' z event' sid_arg' = Some (Inr (Some (PDict data)), c')"
    using assms by (simp add: data_lz4_decode_def return_def)
  assume "transport_ready (sio c) sid_arg wait"
  moreover have "admit c sid_arg False = Inr ()"
    by (simp add: admit_def)
  ultimately show "send_data ext c data event JSON_LZ4 sid_arg False wait =
              Some (Inr (), c\<lparr>sio := emit (sio c) event (PBytes z) DATA_NAMESPACE
                                         (emit_target (sio c) sid_arg)\<rparr>)"
    using p by (simp add: send_data_admitted return_def)
qed

theorem lz4_round_trip_witness:
  "dumps example_externals [(''a'', PInt 1)] = Inr ''{a:1}'' \<and>
   compress example_externals ''{a:1}'' = Inr ''}1:a{'' \<and>
   decompress example_externals ''}1:a{'' = Inr ''{a:1}'' \<and>
   loads example_externals ''{a:1}'' = Inr (PDict [(''a'', PInt 1)]) \<and>
   transport_ready (sio example_client) None True \<and>
   send_data example_externals example_client [(''a'', PInt 1)] ''results'' JSON_LZ4 None False True =
     Some (Inr (), example_client\<lparr>sio := example_sio\<lparr>emitted :=
       [(''results'', PBytes ''}1:a{'', ''/data'', None)]\<rparr>\<rparr>) \<and>
   data_lz4_decode example_externals example_client ''}1:a{'' ''results'' None =
     Some (Inr (Some (PDict [(''a'', PInt 1)])), example_client)"
proof -
  have a: "dumps example_externals [(''a'', PInt 1)] = Inr ''{a:1}''"
    and b: "compress example_externals ''{a:1}'' = Inr ''}1:a{''"
    and c: "decompress example_externals ''}1:a{'' = Inr ''{a:1}''"
    and d: "loads example_externals ''{a:1}'' = Inr (PDict [(''a'', PInt 1)])"
    by (simp_all add: example_externals_def)
  have r: "transport_ready (sio example_client) None True"
    by (simp add: transport_ready_def example_defs2)
  have e: "emit (sio example_client) ''results'' v DATA_NAMESPACE
             (emit_target (sio example_client) None) =
           example_sio\<lparr>emitted := [(''results'', v, ''/data'', None)]\<rparr>" for v
    by (simp add: emit_def emit_target_def example_defs2 DATA_NAMESPACE_def)
  from lz4_round_trip [OF a b c d, of example_client None True "''results''" example_client
      "''results''" None] a b c d r
  show ?thesis by (simp add: e)
qed

end
